theory Spec2Isabelle
  imports Main
begin

section \<open>Strings as the code uses them\<close>

text \<open>
  JavaScript strings are modelled as \<^typ>\<open>string\<close>. \<open>toLowerCase\<close> is modelled on the
  ASCII letters, \<open>trim\<close> on the ASCII white space characters, \<open>includes\<close> is the
  substring test.
\<close>

definition upperAZ :: string where
  "upperAZ = ''ABCDEFGHIJKLMNOPQRSTUVWXYZ''"

definition lowerAZ :: string where
  "lowerAZ = ''abcdefghijklmnopqrstuvwxyz''"

definition lowerChar :: "char \<Rightarrow> char" where
  "lowerChar c = (case map_of (zip upperAZ lowerAZ) c of Some l \<Rightarrow> l | None \<Rightarrow> c)"

definition toLowerCase :: "string \<Rightarrow> string" where
  "toLowerCase s = map lowerChar s"

definition isWhiteSpace :: "char \<Rightarrow> bool" where
  "isWhiteSpace c = (c \<in> set [CHR 0x09, CHR 0x0A, CHR 0x0B, CHR 0x0C, CHR 0x0D, CHR '' ''])"

definition trim :: "string \<Rightarrow> string" where
  "trim s = rev (dropWhile isWhiteSpace (rev (dropWhile isWhiteSpace s)))"

fun startsWith :: "string \<Rightarrow> string \<Rightarrow> bool" where
  "startsWith s [] = True"
| "startsWith [] (c # t) = False"
| "startsWith (a # s) (c # t) = (a = c \<and> startsWith s t)"

fun includes_str :: "string \<Rightarrow> string \<Rightarrow> bool" where
  "includes_str [] t = (t = [])"
| "includes_str (a # s) t = (startsWith (a # s) t \<or> includes_str s t)"

text \<open>\<open>[a, b, c].filter(Boolean).join(":")\<close> on values that are a string or undefined.\<close>

definition truthy :: "string option \<Rightarrow> bool" where
  "truthy v = (case v of None \<Rightarrow> False | Some x \<Rightarrow> x \<noteq> [])"

fun join :: "string \<Rightarrow> string list \<Rightarrow> string" where
  "join sep [] = []"
| "join sep [x] = x"
| "join sep (x # y # ys) = x @ sep @ join sep (y # ys)"

section \<open>Session introspection\<close>

record env =
  XDG_SESSION_TYPE :: "string option"
  WAYLAND_DISPLAY :: "string option"
  DISPLAY :: "string option"
  XDG_CURRENT_DESKTOP :: "string option"
  XDG_SESSION_DESKTOP :: "string option"
  DESKTOP_SESSION :: "string option"

definition CACHE_TTL_MS :: nat where
  "CACHE_TTL_MS = 30000"

definition getLinuxDesktopEnv :: "env \<Rightarrow> string" where
  "getLinuxDesktopEnv e =
     toLowerCase (join '':''
       (map the (filter truthy [XDG_CURRENT_DESKTOP e, XDG_SESSION_DESKTOP e, DESKTOP_SESSION e])))"

definition isGnomeDesktop :: "string \<Rightarrow> bool" where
  "isGnomeDesktop desktopEnv = includes_str desktopEnv ''gnome''"

record session_info =
  isWayland :: bool
  xwaylandAvailable :: bool
  desktopEnv :: string
  isGnome :: bool

definition getLinuxSessionInfo :: "env \<Rightarrow> session_info" where
  "getLinuxSessionInfo e =
     (let isWayland =
            (toLowerCase (case XDG_SESSION_TYPE e of None \<Rightarrow> [] | Some x \<Rightarrow> x) = ''wayland''
             \<or> truthy (WAYLAND_DISPLAY e));
          xwaylandAvailable = (isWayland \<and> truthy (DISPLAY e));
          desktopEnv = getLinuxDesktopEnv e;
          isGnome = (isWayland \<and> isGnomeDesktop desktopEnv)
      in \<lparr>isWayland = isWayland, xwaylandAvailable = xwaylandAvailable,
          desktopEnv = desktopEnv, isGnome = isGnome\<rparr>)"

section \<open>Focused-window classification\<close>

definition terminalClasses :: "string list" where
  "terminalClasses =
     [''konsole'', ''gnome-terminal'', ''terminal'', ''kitty'', ''alacritty'', ''terminator'',
      ''xterm'', ''urxvt'', ''rxvt'', ''tilix'', ''terminology'', ''wezterm'', ''foot'', ''st'',
      ''yakuake'']"

text \<open>\<open>terminalClasses.some((term) => className.includes(term))\<close>\<close>

definition isTerminalWindow :: "string \<Rightarrow> bool" where
  "isTerminalWindow className = list_ex (\<lambda>term. includes_str className term) terminalClasses"

section \<open>The manager, its clock and the world it runs in\<close>

text \<open>
  The sources are event driven. The model makes the clock explicit (\<open>now\<close>, in ms, read by
  \<open>Date.now()\<close>), keeps the pending \<open>setTimeout\<close> callbacks that write the clipboard
  as a list of (due time, text), and records in a trace what a call does while it runs:
  the text it writes to the clipboard, every child process it starts or kills, the dialog
  it shows. The system clipboard is a field of the state as well. A child that is still
  running when its call returns can only be killed by its own timer later on; such kills
  are kept, with their times, in \<open>lateKills\<close>.
\<close>

datatype event =
    SpawnSync string "string list"
  | Spawn string "string list"
  | ShowDialog bool
  | Kill string
  | ClipboardWrite string

record manager =
  now :: nat
  clipboard :: string
  timers :: "(nat \<times> string) list"
  accessibilityCache :: "bool option \<times> nat"
  commandAvailabilityCache :: "string \<rightharpoonup> bool \<times> nat"
  nircmdPath :: "string option"
  nircmdChecked :: bool
  trace :: "event list"
  lateKills :: "(nat \<times> string) list"

text \<open>
  What the operating system answers. \<open>spawnSync\<close> returns a status (null when there is
  none) and the standard output, or throws. A child started with \<open>spawn\<close> either closes
  after some time with an exit code (null when killed by a signal) and what it wrote to
  stderr, or fails to spawn, or does not end. A child that fails to spawn emits \<open>error\<close>
  with a message and then, as every child of Node's \<open>child_process\<close> does, \<open>close\<close>, here
  with a negative code and nothing on stderr: the listeners of both events run, in that
  order, unless the first removed the second. Two children of the same command started in
  the same millisecond need not behave alike: \<open>runAsyncSecond\<close> is the behaviour of the
  second. Synchronous children are taken to return at once.
\<close>

datatype sync_result = Returned "int option" string | Threw

datatype proc_behaviour = Closes nat "int option" string | Errors nat string | Hangs

record world =
  runSync :: "string \<Rightarrow> string list \<Rightarrow> nat \<Rightarrow> sync_result"
  runAsync :: "string \<Rightarrow> string list \<Rightarrow> nat \<Rightarrow> proc_behaviour"
  runAsyncSecond :: "string \<Rightarrow> string list \<Rightarrow> nat \<Rightarrow> proc_behaviour"
  existsSync :: "string \<Rightarrow> bool"
  possiblePaths :: "string list"

definition record_event :: "event \<Rightarrow> manager \<Rightarrow> manager" where
  "record_event ev s = s\<lparr>trace := trace s @ [ev]\<rparr>"

text \<open>Letting time pass runs the callbacks that fall due, in the order of their due times.\<close>

definition advance_to :: "nat \<Rightarrow> manager \<Rightarrow> manager" where
  "advance_to t s =
     (let fired = sort_key fst (filter (\<lambda>tm. fst tm \<le> t) (timers s))
      in s\<lparr>now := t,
           clipboard := (if fired = [] then clipboard s else snd (last fired)),
           timers := filter (\<lambda>tm. \<not> fst tm \<le> t) (timers s)\<rparr>)"

definition sleep :: "nat \<Rightarrow> manager \<Rightarrow> manager" where
  "sleep d s = advance_to (now s + d) s"

text \<open>\<open>clipboard.writeText(text)\<close> as pasteText calls it.\<close>

definition writeText :: "string \<Rightarrow> manager \<Rightarrow> manager" where
  "writeText txt s = record_event (ClipboardWrite txt) (s\<lparr>clipboard := txt\<rparr>)"

text \<open>\<open>setTimeout(() => clipboard.writeText(originalClipboard), d)\<close>\<close>

definition schedule_restore :: "nat \<Rightarrow> string \<Rightarrow> manager \<Rightarrow> manager" where
  "schedule_restore d txt s = s\<lparr>timers := timers s @ [(now s + d, txt)]\<rparr>"

text \<open>
  Modelled from the spec: \<open>killProcess\<close> of \<open>utils/process\<close> is not among the sources; a
  timeout "forcibly terminates the child process". The kill is recorded, and a child that
  is killed closes at once.
\<close>

definition killProcess :: "string \<Rightarrow> manager \<Rightarrow> manager" where
  "killProcess cmd s = record_event (Kill cmd) s"

text \<open>The race of a child against its timer: the child wins when it ends before the timer.\<close>

datatype settled = Closed nat "int option" string | Errored nat string | TimedOut

fun settle :: "nat \<Rightarrow> proc_behaviour \<Rightarrow> settled" where
  "settle T (Closes d code err) = (if d < T then Closed d code err else TimedOut)"
| "settle T (Errors d msg) = (if d < T then Errored d msg else TimedOut)"
| "settle T Hangs = TimedOut"

text \<open>When the race is over, counted from the start of the child.\<close>

fun settleTime :: "nat \<Rightarrow> settled \<Rightarrow> nat" where
  "settleTime T (Closed d code err) = d"
| "settleTime T (Errored d msg) = d"
| "settleTime T TimedOut = T"

section \<open>Delays\<close>

definition PASTE_DELAY_darwin :: nat where "PASTE_DELAY_darwin = 50"
definition PASTE_DELAY_win32_nircmd :: nat where "PASTE_DELAY_win32_nircmd = 30"
definition PASTE_DELAY_win32_pwsh :: nat where "PASTE_DELAY_win32_pwsh = 40"
definition RESTORE_DELAY_win32_nircmd :: nat where "RESTORE_DELAY_win32_nircmd = 80"
definition RESTORE_DELAY_win32_pwsh :: nat where "RESTORE_DELAY_win32_pwsh = 80"
definition PASTE_DELAY_MS :: nat where "PASTE_DELAY_MS = PASTE_DELAY_darwin"

section \<open>Rendering an exit code in a message\<close>

definition digitChar :: "nat \<Rightarrow> char" where
  "digitChar n = ''0123456789'' ! (n mod 10)"

fun showNat :: "nat \<Rightarrow> string" where
  "showNat n = (if n < 10 then [digitChar n] else showNat (n div 10) @ [digitChar n])"

declare showNat.simps [simp del]

definition showCode :: "int option \<Rightarrow> string" where
  "showCode code =
     (case code of None \<Rightarrow> ''null''
      | Some i \<Rightarrow> if i < 0 then ''-'' @ showNat (nat (- i)) else showNat (nat i))"

datatype paste_error = Error string | PasteSimulationFailed string

section \<open>Tool availability cache\<close>

definition whichArgs :: "string \<Rightarrow> string list" where
  "whichArgs cmd = [''-c'', ''command -v '' @ cmd]"

definition commandExists :: "world \<Rightarrow> string \<Rightarrow> manager \<Rightarrow> bool \<times> manager" where
  "commandExists w cmd s =
     (let probe =
            (let s1 = record_event (SpawnSync ''sh'' (whichArgs cmd)) s;
                 ex = (case runSync w ''sh'' (whichArgs cmd) (now s) of
                         Returned status out \<Rightarrow> status = Some 0
                       | Threw \<Rightarrow> False)
             in (ex, s1\<lparr>commandAvailabilityCache :=
                          (commandAvailabilityCache s1)(cmd \<mapsto> (ex, now s + CACHE_TTL_MS))\<rparr>))
      in case commandAvailabilityCache s cmd of
           Some (ex, expiresAt) \<Rightarrow> if now s < expiresAt then (ex, s) else probe
         | None \<Rightarrow> probe)"

section \<open>The nircmd binary\<close>

definition getNircmdPath :: "world \<Rightarrow> string \<Rightarrow> manager \<Rightarrow> string option \<times> manager" where
  "getNircmdPath w platform s =
     (if nircmdChecked s then (nircmdPath s, s)
      else let s1 = s\<lparr>nircmdChecked := True\<rparr>
           in if platform \<noteq> ''win32'' then (None, s1)
              else case find (existsSync w) (possiblePaths w) of
                     Some p \<Rightarrow> (Some p, s1\<lparr>nircmdPath := Some p\<rparr>)
                   | None \<Rightarrow> (None, s1))"

section \<open>Permission gatekeeper (macOS)\<close>

text \<open>
  \<open>showAccessibilityDialog\<close> starts an \<open>osascript\<close> child that displays one of two
  texts; the event records which. The dialog's own listeners run after the user answers
  and touch nothing of the manager.
\<close>

definition showAccessibilityDialog :: "string \<Rightarrow> manager \<Rightarrow> manager" where
  "showAccessibilityDialog testError s =
     (let isStuckPermission =
            (includes_str testError ''not allowed assistive access''
             \<or> includes_str testError ''(-1719)''
             \<or> includes_str testError ''(-25006)'')
      in record_event (ShowDialog isStuckPermission) s)"

definition probeArgs :: "string list" where
  \<open>probeArgs = [''-e'', ''tell application "System Events" to get name of first process'']\<close>

text \<open>
  The probe is not raced against a timer: when the child never ends, the promise never
  settles, which is the value \<open>None\<close>. When the child fails to spawn, the \<open>error\<close>
  listener caches the denial and resolves; it leaves the \<open>close\<close> listener attached, which
  then runs with the negative code and an empty \<open>testError\<close>: it caches the denial again
  and shows the dialog.
\<close>

definition checkAccessibilityPermissions ::
  "world \<Rightarrow> string \<Rightarrow> manager \<Rightarrow> (bool \<times> manager) option" where
  "checkAccessibilityPermissions w platform s =
     (if platform \<noteq> ''darwin'' then Some (True, s)
      else if now s < snd (accessibilityCache s) \<and> fst (accessibilityCache s) \<noteq> None
      then Some (the (fst (accessibilityCache s)), s)
      else
        (let s1 = record_event (Spawn ''osascript'' probeArgs) s
         in case runAsync w ''osascript'' probeArgs (now s) of
              Closes d code testError \<Rightarrow>
                (let s2 = sleep d s1;
                     allowed = (code = Some 0);
                     s3 = s2\<lparr>accessibilityCache := (Some allowed, now s2 + CACHE_TTL_MS)\<rparr>
                 in Some (allowed, if \<not> allowed then showAccessibilityDialog testError s3 else s3))
            | Errors d msg \<Rightarrow>
                (let s2 = sleep d s1;
                     s3 = s2\<lparr>accessibilityCache := (Some False, now s2 + CACHE_TTL_MS)\<rparr>;
                     allowed = False;
                     s4 = s3\<lparr>accessibilityCache := (Some allowed, now s3 + CACHE_TTL_MS)\<rparr>
                 in Some (False, if \<not> allowed then showAccessibilityDialog [] s4 else s4))
            | Hangs \<Rightarrow> None))"

section \<open>Delivery mechanisms\<close>

definition macArgs :: "string list" where
  \<open>macArgs = [''-e'', ''tell application "System Events" to keystroke "v" using command down'']\<close>

definition pasteMacOS :: "world \<Rightarrow> string \<Rightarrow> manager \<Rightarrow> (paste_error + unit) \<times> manager" where
  "pasteMacOS w originalClipboard s =
     (let s1 = sleep PASTE_DELAY_MS s;
          s2 = record_event (Spawn ''osascript'' macArgs) s1
      in case settle 3000 (runAsync w ''osascript'' macArgs (now s1)) of
           Closed d code err \<Rightarrow>
             (let s3 = sleep d s2
              in if code = Some 0 then (Inr (), schedule_restore 100 originalClipboard s3)
                 else (Inl (Error (''Paste failed (code '' @ showCode code
                         @ ''). Text is copied to clipboard - please paste manually with Cmd+V.'')), s3))
         | Errored d msg \<Rightarrow>
             (Inl (Error (''Paste command failed: '' @ msg
                @ ''. Text is copied to clipboard - please paste manually with Cmd+V.'')), sleep d s2)
         | TimedOut \<Rightarrow>
             (Inl (Error ''Paste operation timed out. Text is copied to clipboard - please paste manually with Cmd+V.''),
              killProcess ''osascript'' (sleep 3000 s2)))"

definition pwshArgs :: "string list" where
  "pwshArgs = [''-NoProfile'', ''-NonInteractive'', ''-WindowStyle'', ''Hidden'',
     ''-ExecutionPolicy'', ''Bypass'', ''-Command'',
     ''[void][System.Reflection.Assembly]::LoadWithPartialName('' @ [CHR 0x27]
       @ ''System.Windows.Forms'' @ [CHR 0x27] @ '');[System.Windows.Forms.SendKeys]::SendWait(''
       @ [CHR 0x27] @ ''^v'' @ [CHR 0x27] @ '')'']"

definition pasteWithPowerShell :: "world \<Rightarrow> string \<Rightarrow> manager \<Rightarrow> (paste_error + unit) \<times> manager" where
  "pasteWithPowerShell w originalClipboard s =
     (let pasteDelay = PASTE_DELAY_win32_pwsh;
          restoreDelay = RESTORE_DELAY_win32_pwsh;
          s1 = sleep pasteDelay s;
          s2 = record_event (Spawn ''powershell.exe'' pwshArgs) s1
      in case settle 5000 (runAsync w ''powershell.exe'' pwshArgs (now s1)) of
           Closed d code err \<Rightarrow>
             (let s3 = sleep d s2
              in if code = Some 0 then (Inr (), schedule_restore restoreDelay originalClipboard s3)
                 else (Inl (Error (''Windows paste failed with code '' @ showCode code
                         @ ''. Text is copied to clipboard - please paste manually with Ctrl+V.'')), s3))
         | Errored d msg \<Rightarrow>
             (Inl (Error (''Windows paste failed: '' @ msg
                @ ''. Text is copied to clipboard - please paste manually with Ctrl+V.'')), sleep d s2)
         | TimedOut \<Rightarrow>
             (Inl (Error ''Paste operation timed out. Text is copied to clipboard - please paste manually with Ctrl+V.''),
              killProcess ''powershell.exe'' (sleep 5000 s2)))"

text \<open>
  \<open>pasteWithPowerShell\<close> called twice in the same tick, as the listeners of a nircmd child
  that failed to spawn do (\<open>error\<close>, then \<open>close\<close>): both runs wait their delay and start
  their child, each child is raced against its own 5000 ms timer, and both runs settle
  the one promise of pasteWithNircmd, so the run that settles first decides the call (the
  first run when both settle together). The other run goes on after the call has
  returned: when its child closes with code 0 it schedules its own restore, and when its
  timer fires it kills its child. What it will do is entered as pending at once; it falls
  due no earlier than the moment the call returns.
\<close>

definition pasteWithPowerShellTwice ::
  "world \<Rightarrow> string \<Rightarrow> manager \<Rightarrow> (paste_error + unit) \<times> manager" where
  "pasteWithPowerShellTwice w originalClipboard s =
     (let pasteDelay = PASTE_DELAY_win32_pwsh;
          restoreDelay = RESTORE_DELAY_win32_pwsh;
          s1 = sleep pasteDelay s;
          s2 = record_event (Spawn ''powershell.exe'' pwshArgs)
                 (record_event (Spawn ''powershell.exe'' pwshArgs) s1);
          first = settle 5000 (runAsync w ''powershell.exe'' pwshArgs (now s1));
          second = settle 5000 (runAsyncSecond w ''powershell.exe'' pwshArgs (now s1));
          firstDecides = (settleTime 5000 first \<le> settleTime 5000 second);
          decider = (if firstDecides then first else second);
          other = (if firstDecides then second else first);
          s3 = (case other of
                  Closed d code err \<Rightarrow>
                    if code = Some 0
                    then s2\<lparr>timers := timers s2 @ [(now s1 + d + restoreDelay, originalClipboard)]\<rparr>
                    else s2
                | Errored d msg \<Rightarrow> s2
                | TimedOut \<Rightarrow> s2\<lparr>lateKills := lateKills s2 @ [(now s1 + 5000, ''powershell.exe'')]\<rparr>)
      in case decider of
           Closed d code err \<Rightarrow>
             (let s4 = sleep d s3
              in if code = Some 0 then (Inr (), schedule_restore restoreDelay originalClipboard s4)
                 else (Inl (Error (''Windows paste failed with code '' @ showCode code
                         @ ''. Text is copied to clipboard - please paste manually with Ctrl+V.'')), s4))
         | Errored d msg \<Rightarrow>
             (Inl (Error (''Windows paste failed: '' @ msg
                @ ''. Text is copied to clipboard - please paste manually with Ctrl+V.'')), sleep d s3)
         | TimedOut \<Rightarrow>
             (Inl (Error ''Paste operation timed out. Text is copied to clipboard - please paste manually with Ctrl+V.''),
              killProcess ''powershell.exe'' (sleep 5000 s3)))"

definition nircmdArgs :: "string list" where
  "nircmdArgs = [''sendkeypress'', ''ctrl+v'']"

text \<open>
  The \<open>error\<close> listener of the nircmd child falls back to PowerShell and leaves the
  \<open>close\<close> listener attached; that one runs next, finds a code other than 0 and falls back
  to PowerShell once more.
\<close>

definition pasteWithNircmd ::
  "world \<Rightarrow> string \<Rightarrow> string \<Rightarrow> manager \<Rightarrow> (paste_error + unit) \<times> manager" where
  "pasteWithNircmd w path originalClipboard s =
     (let pasteDelay = PASTE_DELAY_win32_nircmd;
          restoreDelay = RESTORE_DELAY_win32_nircmd;
          s1 = sleep pasteDelay s;
          s2 = record_event (Spawn path nircmdArgs) s1
      in case settle 2000 (runAsync w path nircmdArgs (now s1)) of
           Closed d code err \<Rightarrow>
             (let s3 = sleep d s2
              in if code = Some 0 then (Inr (), schedule_restore restoreDelay originalClipboard s3)
                 else pasteWithPowerShell w originalClipboard s3)
         | Errored d msg \<Rightarrow> pasteWithPowerShellTwice w originalClipboard (sleep d s2)
         | TimedOut \<Rightarrow>
             pasteWithPowerShell w originalClipboard (killProcess path (sleep 2000 s2)))"

definition pasteWindows ::
  "world \<Rightarrow> string \<Rightarrow> string \<Rightarrow> manager \<Rightarrow> (paste_error + unit) \<times> manager" where
  "pasteWindows w platform originalClipboard s =
     (case getNircmdPath w platform s of
        (Some path, s1) \<Rightarrow> pasteWithNircmd w path originalClipboard s1
      | (None, s1) \<Rightarrow> pasteWithPowerShell w originalClipboard s1)"

section \<open>Linux delivery\<close>

record tool =
  cmd :: string
  args :: "string list"

definition xdotoolClassArgs :: "string list" where
  "xdotoolClassArgs = [''getactivewindow'', ''getwindowclassname'']"

definition getXdotoolWindowClass ::
  "world \<Rightarrow> bool \<Rightarrow> session_info \<Rightarrow> manager \<Rightarrow> string option \<times> manager" where
  "getXdotoolWindowClass w xdotoolExists info s =
     (if \<not> xdotoolExists \<or> (isWayland info \<and> \<not> xwaylandAvailable info) then (None, s)
      else
        (let s1 = record_event (SpawnSync ''xdotool'' xdotoolClassArgs) s
         in case runSync w ''xdotool'' xdotoolClassArgs (now s) of
              Returned status out \<Rightarrow>
                if status \<noteq> Some 0 then (None, s1)
                else (let className = trim (toLowerCase out)
                      in (if className = [] then None else Some className, s1))
            | Threw \<Rightarrow> (None, s1)))"

definition isTerminal :: "world \<Rightarrow> string option \<Rightarrow> manager \<Rightarrow> bool \<times> manager" where
  "isTerminal w xdotoolWindowClass s =
     (case xdotoolWindowClass of
        Some c \<Rightarrow> (isTerminalWindow c, s)
      | None \<Rightarrow>
          (case commandExists w ''kdotool'' s of
             (False, s1) \<Rightarrow> (False, s1)
           | (True, s1) \<Rightarrow>
               (let s2 = record_event (SpawnSync ''kdotool'' [''getactivewindow'']) s1
                in case runSync w ''kdotool'' [''getactivewindow''] (now s1) of
                     Threw \<Rightarrow> (False, s2)
                   | Returned status out \<Rightarrow>
                       if status \<noteq> Some 0 then (False, s2)
                       else
                         (let windowId = trim out;
                              s3 = record_event
                                     (SpawnSync ''kdotool'' [''getwindowclassname'', windowId]) s2
                          in case runSync w ''kdotool'' [''getwindowclassname'', windowId] (now s2) of
                               Threw \<Rightarrow> (False, s3)
                             | Returned status2 out2 \<Rightarrow>
                                 if status2 \<noteq> Some 0 then (False, s3)
                                 else (isTerminalWindow (trim (toLowerCase out2)), s3)))))"

definition candidates :: "bool \<Rightarrow> bool \<Rightarrow> bool \<Rightarrow> tool list" where
  "candidates canUseWtype canUseXdotool inTerminal =
     (let pasteKeys = (if inTerminal then ''ctrl+shift+v'' else ''ctrl+v'')
      in (if canUseWtype
          then [if inTerminal
                then \<lparr>cmd = ''wtype'',
                      args = [''-M'', ''ctrl'', ''-M'', ''shift'', ''-k'', ''v'',
                              ''-m'', ''shift'', ''-m'', ''ctrl'']\<rparr>
                else \<lparr>cmd = ''wtype'', args = [''-M'', ''ctrl'', ''-k'', ''v'', ''-m'', ''ctrl'']\<rparr>]
          else [])
         @ (if canUseXdotool then [\<lparr>cmd = ''xdotool'', args = [''key'', pasteKeys]\<rparr>] else []))"

text \<open>\<open>candidates.filter((c) => this.commandExists(c.cmd))\<close>, a filter that threads the cache.\<close>

fun filterAvailable :: "world \<Rightarrow> tool list \<Rightarrow> manager \<Rightarrow> tool list \<times> manager" where
  "filterAvailable w [] s = ([], s)"
| "filterAvailable w (c # cs) s =
     (case commandExists w (cmd c) s of
        (ex, s1) \<Rightarrow>
          (case filterAvailable w cs s1 of
             (rest, s2) \<Rightarrow> (if ex then c # rest else rest, s2)))"

definition pasteWith :: "world \<Rightarrow> string \<Rightarrow> tool \<Rightarrow> manager \<Rightarrow> (paste_error + unit) \<times> manager" where
  "pasteWith w originalClipboard t s =
     (let s1 = record_event (Spawn (cmd t) (args t)) s
      in case settle 1000 (runAsync w (cmd t) (args t) (now s)) of
           Closed d code err \<Rightarrow>
             (let s2 = sleep d s1
              in if code = Some 0 then (Inr (), schedule_restore 200 originalClipboard s2)
                 else (Inl (Error (cmd t @ '' exited with code '' @ showCode code)), s2))
         | Errored d msg \<Rightarrow> (Inl (Error msg), sleep d s1)
         | TimedOut \<Rightarrow>
             (Inl (Error (''Paste with '' @ cmd t @ '' timed out after 1 second'')),
              killProcess (cmd t) (sleep 1000 s1)))"

text \<open>The loop over the available tools: the first success returns, a failure goes on.\<close>

fun tryTools :: "world \<Rightarrow> string \<Rightarrow> tool list \<Rightarrow> manager \<Rightarrow> bool \<times> manager" where
  "tryTools w originalClipboard [] s = (False, s)"
| "tryTools w originalClipboard (t # ts) s =
     (case pasteWith w originalClipboard t s of
        (Inr u, s1) \<Rightarrow> (True, s1)
      | (Inl e, s1) \<Rightarrow> tryTools w originalClipboard ts s1)"

definition linuxErrorMsg :: "session_info \<Rightarrow> bool \<Rightarrow> bool \<Rightarrow> string option \<Rightarrow> string" where
  "linuxErrorMsg info xdotoolExists wtypeExists xdotoolWindowClass =
     (if isWayland info then
        (if isGnome info then
           (if \<not> xwaylandAvailable info then
              ''Clipboard copied, but GNOME Wayland blocks automatic pasting. Please paste manually with Ctrl+V.''
            else if \<not> xdotoolExists then
              ''Clipboard copied, but automatic pasting on GNOME Wayland requires xdotool for XWayland apps. Please install xdotool or paste manually with Ctrl+V.''
            else if xdotoolWindowClass = None then
              ''Clipboard copied, but the active app isn'' @ [CHR 0x27] @ ''t running under XWayland. Please paste manually with Ctrl+V.''
            else
              ''Clipboard copied, but paste simulation failed via XWayland. Please paste manually with Ctrl+V.'')
         else if \<not> wtypeExists then
           (if \<not> xwaylandAvailable info then
              ''Clipboard copied, but automatic pasting on Wayland requires wtype. Please install wtype or paste manually with Ctrl+V.''
            else if \<not> xdotoolExists then
              ''Clipboard copied, but automatic pasting on Wayland requires wtype (Wayland apps) or xdotool (XWayland apps). Please install one or paste manually with Ctrl+V.''
            else if xdotoolWindowClass = None then
              ''Clipboard copied, but the active app isn'' @ [CHR 0x27] @ ''t running under XWayland. Please install wtype for Wayland apps or paste manually with Ctrl+V.''
            else
              ''Clipboard copied, but paste simulation failed via XWayland. Please paste manually with Ctrl+V.'')
         else
           (let xwaylandNote =
                  (if xwaylandAvailable info \<and> xdotoolExists
                   then '' If this is an XWayland app, xdotool can also be used.'' else [])
            in ''Clipboard copied, but paste simulation failed on Wayland. Ensure your compositor supports the virtual keyboard protocol or paste manually with Ctrl+V.''
               @ xwaylandNote))
      else
        ''Clipboard copied, but paste simulation failed on X11. Please install xdotool or paste manually with Ctrl+V.'')"

definition pasteLinux :: "world \<Rightarrow> env \<Rightarrow> string \<Rightarrow> manager \<Rightarrow> (paste_error + unit) \<times> manager" where
  "pasteLinux w e originalClipboard s =
     (let info = getLinuxSessionInfo e
      in case commandExists w ''xdotool'' s of
        (xdotoolExists, s1) \<Rightarrow>
      case commandExists w ''wtype'' s1 of
        (wtypeExists, s2) \<Rightarrow>
      case getXdotoolWindowClass w xdotoolExists info s2 of
        (xdotoolWindowClass, s3) \<Rightarrow>
      case isTerminal w xdotoolWindowClass s3 of
        (inTerminal, s4) \<Rightarrow>
      (let canUseWtype = (isWayland info \<and> \<not> isGnome info);
           canUseXdotool = (if isWayland info then xdotoolWindowClass \<noteq> None else xdotoolExists)
       in case filterAvailable w (candidates canUseWtype canUseXdotool inTerminal) s4 of
         (available, s5) \<Rightarrow>
       case tryTools w originalClipboard available s5 of
         (True, s6) \<Rightarrow> (Inr (), s6)
       | (False, s6) \<Rightarrow>
           (Inl (PasteSimulationFailed
                   (linuxErrorMsg info xdotoolExists wtypeExists xdotoolWindowClass)), s6)))"

section \<open>pasteText\<close>

text \<open>
  The result is the outcome of the call (resolved, or rejected with an error) together with
  the \<open>method\<close> that the call reports in its log entry. \<open>None\<close> is a call that never
  settles.
\<close>

definition pasteText ::
  "world \<Rightarrow> env \<Rightarrow> string \<Rightarrow> string \<Rightarrow> manager
     \<Rightarrow> (((paste_error + unit) \<times> string) \<times> manager) option" where
  "pasteText w e platform text s =
     (let originalClipboard = clipboard s;
          s1 = writeText text s
      in if platform = ''darwin'' then
           (case checkAccessibilityPermissions w platform s1 of
              None \<Rightarrow> None
            | Some (hasPermissions, s2) \<Rightarrow>
                if \<not> hasPermissions then
                  Some ((Inl (Error ''Accessibility permissions required for automatic pasting. Text has been copied to clipboard - please paste manually with Cmd+V.''),
                         ''applescript''), s2)
                else (case pasteMacOS w originalClipboard s2 of
                        (r, s3) \<Rightarrow> Some ((r, ''applescript''), s3)))
         else if platform = ''win32'' then
           (case getNircmdPath w platform s1 of
              (path, s2) \<Rightarrow>
                (case pasteWindows w platform originalClipboard s2 of
                   (r, s3) \<Rightarrow> Some ((r, if path \<noteq> None then ''nircmd'' else ''powershell''), s3)))
         else
           (case pasteLinux w e originalClipboard s1 of
              (r, s2) \<Rightarrow> Some ((r, ''linux-tools''), s2)))"

section \<open>checkPasteTools\<close>

record paste_tools =
  pt_platform :: string
  pt_available :: bool
  pt_method :: "string option"
  pt_requiresPermission :: bool
  pt_isWayland :: "bool option"
  pt_xwaylandAvailable :: "bool option"
  pt_tools :: "string list"
  pt_recommendedInstall :: "string option"

definition checkPasteTools :: "world \<Rightarrow> env \<Rightarrow> string \<Rightarrow> manager \<Rightarrow> paste_tools \<times> manager" where
  "checkPasteTools w e platform s =
     (if platform = ''darwin'' then
        (\<lparr>pt_platform = ''darwin'', pt_available = True, pt_method = Some ''applescript'',
          pt_requiresPermission = True, pt_isWayland = None, pt_xwaylandAvailable = None,
          pt_tools = [], pt_recommendedInstall = None\<rparr>, s)
      else if platform = ''win32'' then
        (\<lparr>pt_platform = ''win32'', pt_available = True, pt_method = Some ''powershell'',
          pt_requiresPermission = False, pt_isWayland = None, pt_xwaylandAvailable = None,
          pt_tools = [], pt_recommendedInstall = None\<rparr>, s)
      else
        (let info = getLinuxSessionInfo e;
             canUseWtype = (isWayland info \<and> \<not> isGnome info);
             canUseXdotool = (\<not> isWayland info \<or> xwaylandAvailable info)
         in case (if canUseWtype then commandExists w ''wtype'' s else (False, s)) of
           (hasWtype, s1) \<Rightarrow>
         case (if canUseXdotool then commandExists w ''xdotool'' s1 else (False, s1)) of
           (hasXdotool, s2) \<Rightarrow>
         (let tools = (if hasWtype then [''wtype''] else []) @ (if hasXdotool then [''xdotool''] else []);
              available = (tools \<noteq> []);
              recommendedInstall =
                (if \<not> available then
                   (if \<not> isWayland info then Some ''xdotool''
                    else if isGnome info then
                      (if xwaylandAvailable info then Some ''xdotool'' else None)
                    else Some ''wtype'')
                 else None)
          in (\<lparr>pt_platform = ''linux'', pt_available = available,
               pt_method = (if available then Some (hd tools) else None),
               pt_requiresPermission = False, pt_isWayland = Some (isWayland info),
               pt_xwaylandAvailable = Some (xwaylandAvailable info),
               pt_tools = tools, pt_recommendedInstall = recommendedInstall\<rparr>, s2))))"

section \<open>Notions used in the statements\<close>

text \<open>The state of a manager right after its constructor, at a given clock and clipboard.\<close>

definition newManager :: "nat \<Rightarrow> string \<Rightarrow> manager" where
  "newManager t c =
     \<lparr>now = t, clipboard = c, timers = [], accessibilityCache = (None, 0),
      commandAvailabilityCache = Map.empty, nircmdPath = None, nircmdChecked = False,
      trace = [], lateKills = []\<rparr>"

text \<open>A tool name has an unexpired cache entry with the given answer.\<close>

definition cachedFresh :: "manager \<Rightarrow> string \<Rightarrow> bool \<Rightarrow> bool" where
  "cachedFresh s c ex =
     (case commandAvailabilityCache s c of
        None \<Rightarrow> False
      | Some (ex', expiresAt) \<Rightarrow> ex' = ex \<and> now s < expiresAt)"

text \<open>The children started with \<open>spawn\<close>, and the dialogs shown, in a trace.\<close>

fun isSpawn :: "event \<Rightarrow> bool" where
  "isSpawn (Spawn c a) = True"
| "isSpawn ev = False"

fun isSpawnSync :: "event \<Rightarrow> bool" where
  "isSpawnSync (SpawnSync c a) = True"
| "isSpawnSync ev = False"

fun isDialog :: "event \<Rightarrow> bool" where
  "isDialog (ShowDialog b) = True"
| "isDialog ev = False"

text \<open>
  A step that only probes: the clock, the clipboard, the pending callbacks and the other
  fields stay as they are, the trace grows by synchronous children only.
\<close>

definition probesOnly :: "manager \<Rightarrow> manager \<Rightarrow> bool" where
  "probesOnly s s' =
     (now s' = now s \<and> clipboard s' = clipboard s \<and> timers s' = timers s
      \<and> accessibilityCache s' = accessibilityCache s
      \<and> nircmdPath s' = nircmdPath s \<and> nircmdChecked s' = nircmdChecked s
      \<and> (\<exists>evs. trace s' = trace s @ evs \<and> list_all isSpawnSync evs))"

text \<open>
  What the window probes answer: xdotool is asked and names a class; xdotool is not asked or
  fails; kdotool is installed and names a class in its two steps; kdotool is missing or one
  of its steps fails.
\<close>

definition xdotoolAnswers :: "world \<Rightarrow> session_info \<Rightarrow> bool \<Rightarrow> manager \<Rightarrow> string \<Rightarrow> bool" where
  "xdotoolAnswers w info xdotoolExists s out =
     (xdotoolExists \<and> \<not> (isWayland info \<and> \<not> xwaylandAvailable info)
      \<and> runSync w ''xdotool'' xdotoolClassArgs (now s) = Returned (Some 0) out)"

definition xdotoolFails :: "world \<Rightarrow> session_info \<Rightarrow> bool \<Rightarrow> manager \<Rightarrow> bool" where
  "xdotoolFails w info xdotoolExists s =
     (\<not> xdotoolExists \<or> (isWayland info \<and> \<not> xwaylandAvailable info)
      \<or> (case runSync w ''xdotool'' xdotoolClassArgs (now s) of
            Threw \<Rightarrow> True
          | Returned status out \<Rightarrow> status \<noteq> Some 0))"

definition kdotoolAnswers :: "world \<Rightarrow> manager \<Rightarrow> string \<Rightarrow> bool" where
  "kdotoolAnswers w s out =
     (fst (commandExists w ''kdotool'' s)
      \<and> (case runSync w ''kdotool'' [''getactivewindow''] (now s) of
            Threw \<Rightarrow> False
          | Returned status windowId \<Rightarrow>
              status = Some 0
              \<and> runSync w ''kdotool'' [''getwindowclassname'', trim windowId] (now s)
                  = Returned (Some 0) out))"

definition kdotoolFails :: "world \<Rightarrow> manager \<Rightarrow> bool" where
  "kdotoolFails w s =
     (\<not> fst (commandExists w ''kdotool'' s)
      \<or> (case runSync w ''kdotool'' [''getactivewindow''] (now s) of
            Threw \<Rightarrow> True
          | Returned status windowId \<Rightarrow>
              status \<noteq> Some 0
              \<or> (case runSync w ''kdotool'' [''getwindowclassname'', trim windowId] (now s) of
                    Threw \<Rightarrow> True
                  | Returned status2 out \<Rightarrow> status2 \<noteq> Some 0)))"

text \<open>The manager holds a nircmd path only once it has looked for one.\<close>

definition nircmdInv :: "manager \<Rightarrow> bool" where
  "nircmdInv s = (nircmdChecked s \<or> nircmdPath s = None)"

text \<open>A race that the child did not win with exit code 0.\<close>

fun failed :: "settled \<Rightarrow> bool" where
  "failed (Closed d code err) = (code \<noteq> Some 0)"
| "failed (Errored d msg) = True"
| "failed TimedOut = True"

text \<open>
  After a success: a callback that writes the given text is due after the given delay,
  and every pending callback writes that text, no earlier than that.
\<close>

definition restorePending :: "nat \<Rightarrow> string \<Rightarrow> manager \<Rightarrow> bool" where
  "restorePending D orig s =
     ((now s + D, orig) \<in> set (timers s)
      \<and> list_all (\<lambda>tm. snd tm = orig \<and> now s + D \<le> fst tm) (timers s))"

text \<open>
  The nircmd child that pasteText would start from this state, at the path that
  pasteWindows gets from getNircmdPath after pasteText has asked once, fails to spawn.
\<close>

definition nircmdFailsToSpawn :: "world \<Rightarrow> manager \<Rightarrow> bool" where
  "nircmdFailsToSpawn w s =
     (case fst (getNircmdPath w ''win32'' (snd (getNircmdPath w ''win32'' s))) of
        None \<Rightarrow> False
      | Some path \<Rightarrow>
          (case settle 2000 (runAsync w path nircmdArgs (now s + PASTE_DELAY_win32_nircmd)) of
             Closed d code err \<Rightarrow> False
           | Errored d msg \<Rightarrow> True
           | TimedOut \<Rightarrow> False))"

text \<open>The trace of the second state continues the trace of the first.\<close>

definition traceGrows :: "manager \<Rightarrow> manager \<Rightarrow> bool" where
  "traceGrows s s' = (take (length (trace s)) (trace s') = trace s)"

section \<open>Example environments\<close>

text \<open>
  Concrete inputs on which the statements below are run: a world in which the listed tools
  are installed, the focused window has the given class, the listed files exist and every
  child started with \<open>spawn\<close> behaves as the given function says.
\<close>

definition exampleWorld ::
  "string list \<Rightarrow> string \<Rightarrow> string list \<Rightarrow> (string \<Rightarrow> string list \<Rightarrow> proc_behaviour) \<Rightarrow> world" where
  "exampleWorld installed windowClass files behaviour =
     \<lparr>runSync = (\<lambda>c a t.
          if c = ''sh'' then
            (if list_ex (\<lambda>tool. a = whichArgs tool) installed
             then Returned (Some 0) [] else Returned (Some 1) [])
          else if c = ''xdotool'' \<and> list_ex (\<lambda>tool. tool = ''xdotool'') installed
          then Returned (Some 0) windowClass
          else Returned None []),
      runAsync = (\<lambda>c a t. behaviour c a),
      runAsyncSecond = (\<lambda>c a t. behaviour c a),
      existsSync = (\<lambda>p. list_ex (\<lambda>f. f = p) files),
      possiblePaths = [''C:/OpenWhispr/resources/bin/nircmd.exe'',
                       ''C:/src/resources/bin/nircmd.exe'',
                       ''C:/cwd/resources/bin/nircmd.exe'']\<rparr>"

definition gnomeWaylandEnv :: env where
  "gnomeWaylandEnv =
     \<lparr>XDG_SESSION_TYPE = Some ''wayland'', WAYLAND_DISPLAY = Some ''wayland-0'',
      DISPLAY = None, XDG_CURRENT_DESKTOP = Some ''ubuntu:GNOME'',
      XDG_SESSION_DESKTOP = Some ''ubuntu'', DESKTOP_SESSION = Some ''ubuntu''\<rparr>"

definition x11Env :: env where
  "x11Env =
     \<lparr>XDG_SESSION_TYPE = Some ''x11'', WAYLAND_DISPLAY = None,
      DISPLAY = Some '':0'', XDG_CURRENT_DESKTOP = Some ''KDE'',
      XDG_SESSION_DESKTOP = None, DESKTOP_SESSION = None\<rparr>"

definition allSucceed :: "string \<Rightarrow> string list \<Rightarrow> proc_behaviour" where
  "allSucceed c a = Closes 20 (Some 0) []"

definition allHang :: "string \<Rightarrow> string list \<Rightarrow> proc_behaviour" where
  "allHang c a = Hangs"

definition allFailToSpawn :: "string \<Rightarrow> string list \<Rightarrow> proc_behaviour" where
  "allFailToSpawn c a = Errors 1 ''spawn ENOENT''"

definition allExitOne :: "string \<Rightarrow> string list \<Rightarrow> proc_behaviour" where
  "allExitOne c a = Closes 5 (Some 1) ''execution error: not allowed assistive access (-1719)''"

text \<open>
  A KDE session in which xdotool is installed and its window probe exits with status 1,
  while kdotool names the window 42 of class org.kde.konsole.
\<close>

definition kdeWorld :: world where
  "kdeWorld =
     \<lparr>runSync = (\<lambda>c a t.
          if c = ''sh'' then Returned (Some 0) []
          else if c = ''xdotool'' then Returned (Some 1) []
          else if a = [''getactivewindow''] then Returned (Some 0) ''42''
          else Returned (Some 0) ''org.kde.konsole''),
      runAsync = (\<lambda>c a t. Closes 20 (Some 0) []),
      runAsyncSecond = (\<lambda>c a t. Closes 20 (Some 0) []),
      existsSync = (\<lambda>p. False),
      possiblePaths = []\<rparr>"

text \<open>
  A Windows machine on which the nircmd binary is found and cannot be started; of the two
  PowerShell children the first closes with code 1 after 50 ms, the second with code 0
  after 100 ms.
\<close>

definition nircmdUnstartableWorld :: world where
  "nircmdUnstartableWorld =
     \<lparr>runSync = (\<lambda>c a t. Returned None []),
      runAsync = (\<lambda>c a t. if c = ''powershell.exe'' then Closes 50 (Some 1) []
                           else Errors 1 ''spawn EACCES''),
      runAsyncSecond = (\<lambda>c a t. Closes 100 (Some 0) []),
      existsSync = (\<lambda>p. p = ''C:/src/resources/bin/nircmd.exe''),
      possiblePaths = [''C:/OpenWhispr/resources/bin/nircmd.exe'',
                       ''C:/src/resources/bin/nircmd.exe'',
                       ''C:/cwd/resources/bin/nircmd.exe'']\<rparr>"

text \<open>
  A macOS machine on which every child started before the clock reads 100 closes with
  code 0 after 20 ms, and every child started later never ends.
\<close>

definition hangsLaterWorld :: world where
  "hangsLaterWorld =
     \<lparr>runSync = (\<lambda>c a t. Returned None []),
      runAsync = (\<lambda>c a t. if t < 100 then Closes 20 (Some 0) [] else Hangs),
      runAsyncSecond = (\<lambda>c a t. if t < 100 then Closes 20 (Some 0) [] else Hangs),
      existsSync = (\<lambda>p. False),
      possiblePaths = []\<rparr>"

section \<open>Basic facts\<close>

lemma now_record_event [simp]: "now (record_event ev s) = now s"
  by (simp add: record_event_def)

lemma trace_record_event [simp]: "trace (record_event ev s) = trace s @ [ev]"
  by (simp add: record_event_def)

lemma record_event_fields [simp]:
  "clipboard (record_event ev s) = clipboard s"
  "timers (record_event ev s) = timers s"
  "accessibilityCache (record_event ev s) = accessibilityCache s"
  "commandAvailabilityCache (record_event ev s) = commandAvailabilityCache s"
  "nircmdPath (record_event ev s) = nircmdPath s"
  "nircmdChecked (record_event ev s) = nircmdChecked s"
  by (simp_all add: record_event_def)

lemma advance_to_fields [simp]:
  "accessibilityCache (advance_to t s) = accessibilityCache s"
  "commandAvailabilityCache (advance_to t s) = commandAvailabilityCache s"
  "nircmdPath (advance_to t s) = nircmdPath s"
  "nircmdChecked (advance_to t s) = nircmdChecked s"
  by (simp_all add: advance_to_def Let_def)

lemma sleep_fields [simp]:
  "accessibilityCache (sleep d s) = accessibilityCache s"
  "commandAvailabilityCache (sleep d s) = commandAvailabilityCache s"
  "nircmdPath (sleep d s) = nircmdPath s"
  "nircmdChecked (sleep d s) = nircmdChecked s"
  by (simp_all add: sleep_def)

lemma trace_advance_to [simp]: "trace (advance_to t s) = trace s"
  by (simp add: advance_to_def Let_def)

lemma trace_sleep [simp]: "trace (sleep d s) = trace s"
  by (simp add: sleep_def)

lemma now_advance_to [simp]: "now (advance_to t s) = t"
  by (simp add: advance_to_def Let_def)

lemma now_sleep [simp]: "now (sleep d s) = now s + d"
  by (simp add: sleep_def)

lemma killProcess_fields [simp]:
  "now (killProcess c s) = now s"
  "clipboard (killProcess c s) = clipboard s"
  "timers (killProcess c s) = timers s"
  "trace (killProcess c s) = trace s @ [Kill c]"
  by (simp_all add: killProcess_def)

lemma schedule_restore_fields [simp]:
  "now (schedule_restore d x s) = now s"
  "clipboard (schedule_restore d x s) = clipboard s"
  "timers (schedule_restore d x s) = timers s @ [(now s + d, x)]"
  "trace (schedule_restore d x s) = trace s"
  by (simp_all add: schedule_restore_def)

lemma lateKills_fields [simp]:
  "lateKills (record_event ev s) = lateKills s"
  "lateKills (advance_to t s) = lateKills s"
  "lateKills (sleep d s) = lateKills s"
  "lateKills (killProcess c s) = lateKills s"
  "lateKills (schedule_restore d x s) = lateKills s"
  by (simp_all add: record_event_def advance_to_def sleep_def killProcess_def
        schedule_restore_def Let_def)

lemma writeText_fields [simp]:
  "now (writeText d s) = now s"
  "clipboard (writeText d s) = d"
  "timers (writeText d s) = timers s"
  "trace (writeText d s) = trace s @ [ClipboardWrite d]"
  "accessibilityCache (writeText d s) = accessibilityCache s"
  "commandAvailabilityCache (writeText d s) = commandAvailabilityCache s"
  "nircmdPath (writeText d s) = nircmdPath s"
  "nircmdChecked (writeText d s) = nircmdChecked s"
  "lateKills (writeText d s) = lateKills s"
  by (simp_all add: writeText_def)

lemma startsWith_iff: "startsWith s t \<longleftrightarrow> (\<exists>b. s = t @ b)"
  by (induction s t rule: startsWith.induct) auto

lemma includes_str_iff: "includes_str s t \<longleftrightarrow> (\<exists>a b. s = a @ t @ b)"
proof (induction s)
  case Nil
  then show ?case by auto
next
  case (Cons c s)
  show ?case
  proof
    assume "includes_str (c # s) t"
    then consider "startsWith (c # s) t" | "includes_str s t" by auto
    then show "\<exists>a b. c # s = a @ t @ b"
    proof cases
      case 1
      then obtain b where "c # s = t @ b" by (auto simp: startsWith_iff)
      then have "c # s = [] @ t @ b" by simp
      then show ?thesis by blast
    next
      case 2
      then obtain a b where "s = a @ t @ b" using Cons.IH by blast
      then have "c # s = (c # a) @ t @ b" by simp
      then show ?thesis by blast
    qed
  next
    assume "\<exists>a b. c # s = a @ t @ b"
    then obtain a b where ab: "c # s = a @ t @ b" by blast
    show "includes_str (c # s) t"
    proof (cases a)
      case Nil
      with ab have "startsWith (c # s) t" by (auto simp: startsWith_iff)
      then show ?thesis by simp
    next
      case (Cons x a')
      with ab have "s = a' @ t @ b" by simp
      then have "includes_str s t" using Cons.IH by blast
      then show ?thesis by simp
    qed
  qed
qed

lemma includes_toLowerCase:
  assumes "includes_str s t"
  shows "includes_str (toLowerCase s) (toLowerCase t)"
proof -
  from assms obtain a b where "s = a @ t @ b" by (auto simp: includes_str_iff)
  then have "toLowerCase s = toLowerCase a @ toLowerCase t @ toLowerCase b"
    by (simp add: toLowerCase_def)
  then show ?thesis unfolding includes_str_iff by blast
qed

lemma dropWhile_keeps_infix:
  assumes "t \<noteq> []" and "\<not> P (hd t)"
  shows "\<exists>a'. dropWhile P (a @ t @ b) = a' @ t @ b"
proof (induction a)
  case Nil
  from assms obtain x t' where "t = x # t'" by (cases t) auto
  with assms have "dropWhile P (t @ b) = [] @ t @ b" by simp
  then show ?case by auto
next
  case (Cons y a)
  then obtain a' where IH: "dropWhile P (a @ t @ b) = a' @ t @ b" by blast
  show ?case
  proof (cases "P y")
    case True
    then show ?thesis using IH by simp
  next
    case False
    then have "dropWhile P ((y # a) @ t @ b) = (y # a) @ t @ b" by simp
    then show ?thesis by blast
  qed
qed

lemma includes_trim:
  assumes inc: "includes_str s t" and ne: "t \<noteq> []"
    and h: "\<not> isWhiteSpace (hd t)" and l: "\<not> isWhiteSpace (last t)"
  shows "includes_str (trim s) t"
proof -
  from inc obtain a b where s: "s = a @ t @ b" by (auto simp: includes_str_iff)
  obtain a' where 1: "dropWhile isWhiteSpace (a @ t @ b) = a' @ t @ b"
    using dropWhile_keeps_infix [of t isWhiteSpace a b] ne h by blast
  have rne: "rev t \<noteq> []" using ne by simp
  have rh: "\<not> isWhiteSpace (hd (rev t))" using l ne by (simp add: hd_rev)
  obtain b' where 2: "dropWhile isWhiteSpace (rev b @ rev t @ rev a') = b' @ rev t @ rev a'"
    using dropWhile_keeps_infix [of "rev t" isWhiteSpace "rev b" "rev a'"] rne rh by blast
  have "trim s = a' @ t @ rev b'"
    unfolding trim_def s 1 by (simp add: 2)
  then show ?thesis unfolding includes_str_iff by blast
qed

lemma isTerminalWindow_intro:
  "k \<in> set terminalClasses \<Longrightarrow> includes_str c k \<Longrightarrow> isTerminalWindow c"
  by (auto simp: isTerminalWindow_def list_ex_iff)

lemma classify_output:
  assumes k: "k \<in> set terminalClasses"
    and inc: "includes_str out k \<or> includes_str (toLowerCase out) k"
  shows "isTerminalWindow (trim (toLowerCase out))"
proof -
  have lk: "toLowerCase k = k" and ne: "k \<noteq> []"
    and h: "\<not> isWhiteSpace (hd k)" and l: "\<not> isWhiteSpace (last k)"
    using k by (auto simp: terminalClasses_def toLowerCase_def lowerChar_def upperAZ_def lowerAZ_def isWhiteSpace_def)
  from inc have "includes_str (toLowerCase out) k"
    using includes_toLowerCase [of out k] lk by auto
  then have "includes_str (trim (toLowerCase out)) k"
    using includes_trim ne h l by blast
  then show ?thesis using k isTerminalWindow_intro by blast
qed

lemma advance_to_no_timers:
  "timers s = [] \<Longrightarrow> advance_to t s = s\<lparr>now := t\<rparr>"
  by (cases s) (simp add: advance_to_def)

lemma sleep_no_timers:
  "timers s = [] \<Longrightarrow> sleep d s = s\<lparr>now := now s + d\<rparr>"
  by (simp add: sleep_def advance_to_no_timers)

lemma probesOnly_refl: "probesOnly s s"
  by (simp add: probesOnly_def)

lemma probesOnly_trans: "probesOnly s s1 \<Longrightarrow> probesOnly s1 s2 \<Longrightarrow> probesOnly s s2"
  by (auto simp: probesOnly_def)

lemma probesOnly_record:
  "probesOnly s (record_event (SpawnSync c a) s)"
  by (simp add: probesOnly_def record_event_def)

lemma cachedFresh_iff:
  "cachedFresh s c ex \<longleftrightarrow> (\<exists>x. commandAvailabilityCache s c = Some (ex, x) \<and> now s < x)"
  by (auto simp: cachedFresh_def split: option.splits)

lemma commandExists_hit:
  "cachedFresh s c ex \<Longrightarrow> commandExists w c s = (ex, s)"
  by (auto simp: cachedFresh_iff commandExists_def)

lemma commandExists_cases:
  assumes "commandExists w c s = (ex, s')"
  shows "(s' = s \<and> cachedFresh s c ex) \<or>
         (s' = s\<lparr>trace := trace s @ [SpawnSync ''sh'' (whichArgs c)],
                commandAvailabilityCache :=
                  (commandAvailabilityCache s)(c \<mapsto> (ex, now s + CACHE_TTL_MS))\<rparr>
          \<and> (\<forall>v. \<not> cachedFresh s c v))"
  using assms
  by (auto simp: cachedFresh_iff commandExists_def record_event_def Let_def
           split: option.splits if_splits)

lemma commandExists_fresh:
  assumes "commandExists w c s = (ex, s')"
  shows "cachedFresh s' c ex"
  using commandExists_cases [OF assms]
  by (auto simp: cachedFresh_iff CACHE_TTL_MS_def)

lemma commandExists_keeps_fresh:
  assumes "commandExists w c s = (ex, s')" and "cachedFresh s c' ex'"
  shows "cachedFresh s' c' ex'"
  using commandExists_cases [OF assms(1)] assms(2)
  by (cases "c' = c") (auto simp: cachedFresh_iff)

lemma commandExists_probesOnly:
  assumes "commandExists w c s = (ex, s')"
  shows "probesOnly s s'"
proof -
  from commandExists_cases [OF assms] show ?thesis
    by (auto simp: probesOnly_def)
qed

section \<open>Linux: probing steps and the GNOME Wayland session\<close>

lemma probesOnly_append:
  "probesOnly s s1 \<Longrightarrow> probesOnly s (record_event (SpawnSync c a) s1)"
  by (auto simp: probesOnly_def record_event_def)

lemma cachedFresh_record [simp]:
  "cachedFresh (record_event ev s) c ex = cachedFresh s c ex"
  by (simp add: cachedFresh_iff record_event_def)

lemma getXdotoolWindowClass_frame:
  assumes "getXdotoolWindowClass w xe info s = (cls, s')"
  shows "probesOnly s s' \<and> (\<forall>c ex. cachedFresh s' c ex = cachedFresh s c ex)"
  using assms
  by (auto simp: getXdotoolWindowClass_def Let_def probesOnly_refl probesOnly_record
           split: if_splits sync_result.splits)

lemma getXdotoolWindowClass_no_bridge:
  "isWayland info \<Longrightarrow> \<not> xwaylandAvailable info
   \<Longrightarrow> getXdotoolWindowClass w xe info s = (None, s)"
  by (simp add: getXdotoolWindowClass_def)

lemma isTerminal_frame:
  assumes "isTerminal w cls s = (b, s')"
  shows "probesOnly s s' \<and> (\<forall>c ex. cachedFresh s c ex \<longrightarrow> cachedFresh s' c ex)"
proof (cases cls)
  case (Some c)
  with assms show ?thesis by (simp add: isTerminal_def probesOnly_refl)
next
  case None
  obtain kd s1 where ce: "commandExists w ''kdotool'' s = (kd, s1)"
    by (cases "commandExists w ''kdotool'' s")
  have p1: "probesOnly s s1" using commandExists_probesOnly [OF ce] .
  have k1: "\<forall>c ex. cachedFresh s c ex \<longrightarrow> cachedFresh s1 c ex"
    using commandExists_keeps_fresh [OF ce] by blast
  have "probesOnly s1 s' \<and> (\<forall>c ex. cachedFresh s' c ex = cachedFresh s1 c ex)"
    using assms None ce
    by (auto simp: isTerminal_def Let_def probesOnly_refl probesOnly_record probesOnly_append
             split: if_splits sync_result.splits bool.splits)
  then show ?thesis using p1 k1 probesOnly_trans by blast
qed

lemma candidates_none: "candidates False False b = []"
  by (simp add: candidates_def)

lemma getLinuxSessionInfo_fields:
  "xwaylandAvailable (getLinuxSessionInfo e)
     = (isWayland (getLinuxSessionInfo e) \<and> truthy (DISPLAY e))"
  "isGnome (getLinuxSessionInfo e)
     = (isWayland (getLinuxSessionInfo e) \<and> isGnomeDesktop (getLinuxDesktopEnv e))"
  by (simp_all add: getLinuxSessionInfo_def Let_def)

lemma gnome_msg_no_install:
  "\<not> includes_str ''Clipboard copied, but GNOME Wayland blocks automatic pasting. Please paste manually with Ctrl+V.'' ''install''"
  by simp

lemma pasteLinux_gnome_wayland:
  assumes wl: "isWayland (getLinuxSessionInfo e)"
    and gn: "isGnomeDesktop (getLinuxDesktopEnv e)"
    and nd: "\<not> truthy (DISPLAY e)"
  shows "\<exists>s'. pasteLinux w e orig s =
           (Inl (PasteSimulationFailed ''Clipboard copied, but GNOME Wayland blocks automatic pasting. Please paste manually with Ctrl+V.''), s')
         \<and> probesOnly s s'"
proof -
  let ?info = "getLinuxSessionInfo e"
  have nx: "\<not> xwaylandAvailable ?info" and g: "isGnome ?info"
    using wl gn nd by (simp_all add: getLinuxSessionInfo_fields)
  obtain xe s1 where c1: "commandExists w ''xdotool'' s = (xe, s1)"
    by (cases "commandExists w ''xdotool'' s")
  obtain we s2 where c2: "commandExists w ''wtype'' s1 = (we, s2)"
    by (cases "commandExists w ''wtype'' s1")
  have gx: "getXdotoolWindowClass w xe ?info s2 = (None, s2)"
    using wl nx by (rule getXdotoolWindowClass_no_bridge)
  obtain b s4 where it: "isTerminal w None s2 = (b, s4)"
    by (cases "isTerminal w None s2")
  have p: "probesOnly s s4"
    using commandExists_probesOnly [OF c1] commandExists_probesOnly [OF c2]
      isTerminal_frame [OF it] probesOnly_trans by blast
  have "pasteLinux w e orig s =
     (Inl (PasteSimulationFailed (linuxErrorMsg ?info xe we None)), s4)"
    using wl g
    by (simp add: pasteLinux_def c1 c2 gx it candidates_none)
  moreover have "linuxErrorMsg ?info xe we None =
     ''Clipboard copied, but GNOME Wayland blocks automatic pasting. Please paste manually with Ctrl+V.''"
    using wl g nx by (simp add: linuxErrorMsg_def)
  ultimately show ?thesis using p by simp
qed

lemma no_spawn_among_sync: "list_all isSpawnSync evs \<Longrightarrow> filter isSpawn evs = []"
proof (induction evs)
  case Nil
  then show ?case by simp
next
  case (Cons ev evs)
  then show ?case by (cases ev) simp_all
qed

lemma no_dialog_among_sync: "list_all isSpawnSync evs \<Longrightarrow> filter isDialog evs = []"
proof (induction evs)
  case Nil
  then show ?case by simp
next
  case (Cons ev evs)
  then show ?case by (cases ev) simp_all
qed

lemma probesOnly_spawns:
  "probesOnly s s' \<Longrightarrow> filter isSpawn (trace s') = filter isSpawn (trace s)"
  by (auto simp: probesOnly_def no_spawn_among_sync)

text \<open>
  C3. On Linux (every platform other than darwin and win32 takes this branch), in a Wayland
  session on a Gnome desktop with no DISPLAY variable, the candidate list is empty whatever
  tools are installed (in particular with xdotool absent and wtype present), no delivery
  child is started, and pasteText fails with the message that GNOME Wayland blocks automatic
  pasting, which suggests no installation; the text stays on the clipboard.
\<close>

theorem gnome_wayland_without_bridge_fails:
  assumes linux: "platform \<noteq> ''darwin''" "platform \<noteq> ''win32''"
    and wl: "isWayland (getLinuxSessionInfo e)"
    and gn: "isGnomeDesktop (getLinuxDesktopEnv e)"
    and nd: "\<not> truthy (DISPLAY e)"
  shows "(\<forall>xe s2 b.
            candidates (isWayland (getLinuxSessionInfo e) \<and> \<not> isGnome (getLinuxSessionInfo e))
              (fst (getXdotoolWindowClass w xe (getLinuxSessionInfo e) s2) \<noteq> None) b = [])
       \<and> (\<exists>msg s'.
            pasteText w e platform text s
              = Some ((Inl (PasteSimulationFailed msg), ''linux-tools''), s')
            \<and> msg = ''Clipboard copied, but GNOME Wayland blocks automatic pasting. Please paste manually with Ctrl+V.''
            \<and> \<not> includes_str msg ''install''
            \<and> clipboard s' = text
            \<and> filter isSpawn (trace s') = filter isSpawn (trace s))"
proof -
  let ?info = "getLinuxSessionInfo e"
  have nx: "\<not> xwaylandAvailable ?info" and g: "isGnome ?info"
    using wl gn nd by (simp_all add: getLinuxSessionInfo_fields)
  have cand: "\<forall>xe s2 b.
            candidates (isWayland ?info \<and> \<not> isGnome ?info)
              (fst (getXdotoolWindowClass w xe ?info s2) \<noteq> None) b = []"
    using wl nx g by (simp add: getXdotoolWindowClass_no_bridge candidates_none)
  obtain s' where pl: "pasteLinux w e (clipboard s) (writeText text s) =
           (Inl (PasteSimulationFailed ''Clipboard copied, but GNOME Wayland blocks automatic pasting. Please paste manually with Ctrl+V.''), s')"
    and po: "probesOnly (writeText text s) s'"
    using pasteLinux_gnome_wayland [OF wl gn nd] by blast
  have pt: "pasteText w e platform text s =
     Some ((Inl (PasteSimulationFailed ''Clipboard copied, but GNOME Wayland blocks automatic pasting. Please paste manually with Ctrl+V.''), ''linux-tools''), s')"
    using linux by (simp add: pasteText_def pl)
  have cl: "clipboard s' = text" using po by (simp add: probesOnly_def)
  have tr: "filter isSpawn (trace s') = filter isSpawn (trace s)"
    using po by (simp add: probesOnly_spawns)
  show ?thesis using cand pt cl tr gnome_msg_no_install by blast
qed


theorem gnome_wayland_without_bridge_fails_witness:
  "isWayland (getLinuxSessionInfo gnomeWaylandEnv)
   \<and> isGnomeDesktop (getLinuxDesktopEnv gnomeWaylandEnv)
   \<and> \<not> truthy (DISPLAY gnomeWaylandEnv)
   \<and> fst (commandExists (exampleWorld [''wtype''] [] [] allSucceed) ''wtype'' (newManager 0 ''old''))
   \<and> \<not> fst (commandExists (exampleWorld [''wtype''] [] [] allSucceed) ''xdotool'' (newManager 0 ''old''))
   \<and> (\<exists>s'. pasteText (exampleWorld [''wtype''] [] [] allSucceed) gnomeWaylandEnv ''linux''
               ''hello'' (newManager 0 ''old'')
             = Some ((Inl (PasteSimulationFailed ''Clipboard copied, but GNOME Wayland blocks automatic pasting. Please paste manually with Ctrl+V.''),
                      ''linux-tools''), s')
           \<and> clipboard s' = ''hello'')"
proof -
  have wl: "isWayland (getLinuxSessionInfo gnomeWaylandEnv)"
    by (simp add: getLinuxSessionInfo_def gnomeWaylandEnv_def Let_def toLowerCase_def
          lowerChar_def upperAZ_def lowerAZ_def truthy_def)
  have gn: "isGnomeDesktop (getLinuxDesktopEnv gnomeWaylandEnv)"
    by (simp add: getLinuxDesktopEnv_def isGnomeDesktop_def gnomeWaylandEnv_def toLowerCase_def
          lowerChar_def upperAZ_def lowerAZ_def truthy_def)
  have nd: "\<not> truthy (DISPLAY gnomeWaylandEnv)"
    by (simp add: gnomeWaylandEnv_def truthy_def)
  have t1: "fst (commandExists (exampleWorld [''wtype''] [] [] allSucceed) ''wtype'' (newManager 0 ''old''))"
    by (simp add: commandExists_def exampleWorld_def newManager_def whichArgs_def Let_def)
  have t2: "\<not> fst (commandExists (exampleWorld [''wtype''] [] [] allSucceed) ''xdotool'' (newManager 0 ''old''))"
    by (simp add: commandExists_def exampleWorld_def newManager_def whichArgs_def Let_def)
  show ?thesis
    using gnome_wayland_without_bridge_fails
      [of "''linux''" gnomeWaylandEnv "exampleWorld [''wtype''] [] [] allSucceed" "''hello''"
          "newManager 0 ''old''", OF _ _ wl gn nd] wl gn nd t1 t2
    by auto
qed

section \<open>Classification of the focused window\<close>

lemma isTerminalWindow_nonempty: "isTerminalWindow c \<Longrightarrow> c \<noteq> []"
  by (auto simp: isTerminalWindow_def terminalClasses_def)

lemma isTerminal_of_class: "isTerminal w (Some c) s = (isTerminalWindow c, s)"
  by (simp add: isTerminal_def)

lemma getXdotoolWindowClass_answers:
  assumes "xdotoolAnswers w info xe s out"
  shows "getXdotoolWindowClass w xe info s =
           (if trim (toLowerCase out) = [] then None else Some (trim (toLowerCase out)),
            record_event (SpawnSync ''xdotool'' xdotoolClassArgs) s)"
  using assms by (auto simp: xdotoolAnswers_def getXdotoolWindowClass_def Let_def)

lemma getXdotoolWindowClass_fails:
  assumes "xdotoolFails w info xe s" and "getXdotoolWindowClass w xe info s = (cls, s1)"
  shows "cls = None"
  using assms
  by (auto simp: xdotoolFails_def getXdotoolWindowClass_def Let_def
           split: if_splits sync_result.splits)

lemma isTerminal_kdotool_answers:
  assumes ka: "kdotoolAnswers w s out" and it: "isTerminal w None s = (b, s')"
  shows "b = isTerminalWindow (trim (toLowerCase out))"
proof -
  obtain kd s1 where ce: "commandExists w ''kdotool'' s = (kd, s1)"
    by (cases "commandExists w ''kdotool'' s")
  have n: "now s1 = now s" using commandExists_probesOnly [OF ce] by (simp add: probesOnly_def)
  from ka ce have kd: "kd" by (simp add: kdotoolAnswers_def)
  from ka obtain wid where
    a: "runSync w ''kdotool'' [''getactivewindow''] (now s) = Returned (Some 0) wid"
    and c: "runSync w ''kdotool'' [''getwindowclassname'', trim wid] (now s) = Returned (Some 0) out"
    by (auto simp: kdotoolAnswers_def split: sync_result.splits)
  show ?thesis using it ce kd a c n
    by (simp add: isTerminal_def Let_def)
qed

lemma isTerminal_kdotool_fails:
  assumes kf: "kdotoolFails w s" and it: "isTerminal w None s = (b, s')"
  shows "\<not> b"
proof -
  obtain kd s1 where ce: "commandExists w ''kdotool'' s = (kd, s1)"
    by (cases "commandExists w ''kdotool'' s")
  have n: "now s1 = now s" using commandExists_probesOnly [OF ce] by (simp add: probesOnly_def)
  show ?thesis using it ce kf n
    by (cases kd)
       (auto simp: isTerminal_def kdotoolFails_def Let_def split: if_splits sync_result.splits)
qed

lemma classification_of_output:
  assumes gx: "getXdotoolWindowClass w xe info s = (cls, s1)"
    and it: "isTerminal w cls s1 = (b, s2)"
    and src: "xdotoolAnswers w info xe s out \<or> (xdotoolFails w info xe s \<and> kdotoolAnswers w s1 out)"
    and ne: "trim (toLowerCase out) \<noteq> []"
  shows "b = isTerminalWindow (trim (toLowerCase out))"
  using src
proof
  assume xa: "xdotoolAnswers w info xe s out"
  with gx ne have "cls = Some (trim (toLowerCase out))"
    by (simp add: getXdotoolWindowClass_answers)
  with it show ?thesis by (simp add: isTerminal_of_class)
next
  assume "xdotoolFails w info xe s \<and> kdotoolAnswers w s1 out"
  then have "cls = None" and ka: "kdotoolAnswers w s1 out"
    using getXdotoolWindowClass_fails gx by blast+
  with it show ?thesis using isTerminal_kdotool_answers by blast
qed

lemma registry_members:
  "''konsole'' \<in> set terminalClasses" "''xterm'' \<in> set terminalClasses"
  "''st'' \<in> set terminalClasses"
  by (simp_all add: terminalClasses_def)

lemma firefox_not_terminal: "\<not> isTerminalWindow ''firefox''"
  by (simp add: isTerminalWindow_def terminalClasses_def)

lemma xdotool_probe_cases:
  "xdotoolFails w info xe s \<or> (\<exists>out. xdotoolAnswers w info xe s out)"
  by (auto simp: xdotoolFails_def xdotoolAnswers_def split: sync_result.splits)

lemma kdotool_probe_cases:
  "kdotoolFails w s \<or> (\<exists>out. kdotoolAnswers w s out)"
  by (auto simp: kdotoolFails_def kdotoolAnswers_def split: sync_result.splits)

lemma isTerminalWindow_registry:
  "isTerminalWindow c = (\<exists>k. k \<in> set terminalClasses \<and> includes_str c k)"
  by (auto simp: isTerminalWindow_def list_ex_iff)

text \<open>
  C6 as stated fails: a probe failure does not classify as no terminal when
  the other probe answers. Here xdotool is installed and its window probe exits with
  status 1; the classifier then asks kdotool, which names org.kde.konsole, and the window
  classifies as a terminal.
\<close>

theorem failed_xdotool_probe_classifies_terminal:
  "fst (commandExists kdeWorld ''xdotool'' (newManager 0 ''old''))
   \<and> runSync kdeWorld ''xdotool'' xdotoolClassArgs (now (newManager 0 ''old''))
       = Returned (Some 1) []
   \<and> xdotoolFails kdeWorld (getLinuxSessionInfo x11Env) True (newManager 0 ''old'')
   \<and> fst (getXdotoolWindowClass kdeWorld True (getLinuxSessionInfo x11Env)
            (newManager 0 ''old'')) = None
   \<and> fst (isTerminal kdeWorld
            (fst (getXdotoolWindowClass kdeWorld True (getLinuxSessionInfo x11Env)
                    (newManager 0 ''old'')))
            (snd (getXdotoolWindowClass kdeWorld True (getLinuxSessionInfo x11Env)
                    (newManager 0 ''old''))))"
proof -
  let ?I = "getLinuxSessionInfo x11Env"
  let ?S = "newManager 0 ''old''"
  have x11: "\<not> isWayland ?I"
    by (simp add: getLinuxSessionInfo_def x11Env_def Let_def toLowerCase_def lowerChar_def
          upperAZ_def lowerAZ_def truthy_def)
  have a: "fst (commandExists kdeWorld ''xdotool'' ?S)"
    by (simp add: commandExists_def kdeWorld_def newManager_def Let_def)
  have b: "runSync kdeWorld ''xdotool'' xdotoolClassArgs (now ?S) = Returned (Some 1) []"
    by (simp add: kdeWorld_def)
  have c: "xdotoolFails kdeWorld ?I True ?S"
    by (simp add: xdotoolFails_def kdeWorld_def)
  have g: "getXdotoolWindowClass kdeWorld True ?I ?S
             = (None, record_event (SpawnSync ''xdotool'' xdotoolClassArgs) ?S)"
    using x11 by (simp add: getXdotoolWindowClass_def kdeWorld_def Let_def)
  have k: "isTerminalWindow (trim (toLowerCase ''org.kde.konsole''))"
    by (rule classify_output [OF registry_members(1)]) simp
  have t42: "trim ''42'' = ''42''" by (simp add: trim_def isWhiteSpace_def)
  have e: "fst (isTerminal kdeWorld None
                  (record_event (SpawnSync ''xdotool'' xdotoolClassArgs) ?S))"
    using k t42
    by (simp add: isTerminal_def commandExists_def kdeWorld_def newManager_def
          record_event_def Let_def)
  show ?thesis
    apply (intro conjI)
        apply (rule a)
       apply (rule b)
      apply (rule c)
     apply (simp add: g)
    apply (simp add: g e)
    done
qed

text \<open>
  C6. The class string that a window probe returns is lower-cased and trimmed and then
  matched by substring against the registry: the window classifies as a terminal exactly
  when the string so obtained contains a registry entry. The string is the one of
  xdotool when xdotool is asked, exits with status 0 and names a class that is not empty;
  when xdotool is not asked, fails (a nonzero status, an exception) or names no class,
  kdotool is asked instead, and the string is the one that kdotool returns. So a class
  that contains konsole or xterm, literally or after lower-casing, classifies as a
  terminal, a class that contains no registry entry (firefox) classifies as no terminal,
  and the window classifies as no terminal when neither probe names a class: xdotool as
  above, and kdotool missing or failing in one of its two steps. Each probe either
  answers or fails.
\<close>

theorem focused_window_classified_by_registry:
  assumes gx: "getXdotoolWindowClass w xe info s = (cls, s1)"
    and it: "isTerminal w cls s1 = (b, s2)"
  shows "(\<forall>out. xdotoolAnswers w info xe s out \<and> trim (toLowerCase out) \<noteq> []
           \<longrightarrow> cls = Some (trim (toLowerCase out))
               \<and> b = isTerminalWindow (trim (toLowerCase out)))
       \<and> (\<forall>out. xdotoolAnswers w info xe s out \<and> trim (toLowerCase out) = []
           \<longrightarrow> cls = None)
       \<and> (xdotoolFails w info xe s \<longrightarrow> cls = None)
       \<and> (\<forall>out. cls = None \<and> kdotoolAnswers w s1 out
           \<longrightarrow> b = isTerminalWindow (trim (toLowerCase out)))
       \<and> (cls = None \<and> kdotoolFails w s1 \<longrightarrow> \<not> b)
       \<and> (\<forall>c. isTerminalWindow c = (\<exists>k. k \<in> set terminalClasses \<and> includes_str c k))
       \<and> (\<forall>k out. k \<in> set terminalClasses
             \<and> (includes_str out k \<or> includes_str (toLowerCase out) k)
           \<longrightarrow> isTerminalWindow (trim (toLowerCase out)))
       \<and> ''konsole'' \<in> set terminalClasses \<and> ''xterm'' \<in> set terminalClasses
       \<and> \<not> isTerminalWindow ''firefox''
       \<and> (xdotoolFails w info xe s \<or> (\<exists>out. xdotoolAnswers w info xe s out))
       \<and> (kdotoolFails w s1 \<or> (\<exists>out. kdotoolAnswers w s1 out))"
proof -
  have c1: "\<forall>out. xdotoolAnswers w info xe s out \<and> trim (toLowerCase out) \<noteq> []
           \<longrightarrow> cls = Some (trim (toLowerCase out))
               \<and> b = isTerminalWindow (trim (toLowerCase out))"
  proof (intro allI impI, elim conjE)
    fix out
    assume xa: "xdotoolAnswers w info xe s out" and ne: "trim (toLowerCase out) \<noteq> []"
    have c: "cls = Some (trim (toLowerCase out))"
      using gx ne getXdotoolWindowClass_answers [OF xa] by simp
    then have "b = isTerminalWindow (trim (toLowerCase out))"
      using it by (simp add: isTerminal_of_class)
    with c show "cls = Some (trim (toLowerCase out))
               \<and> b = isTerminalWindow (trim (toLowerCase out))" by simp
  qed
  have c2: "\<forall>out. xdotoolAnswers w info xe s out \<and> trim (toLowerCase out) = []
           \<longrightarrow> cls = None"
  proof (intro allI impI, elim conjE)
    fix out
    assume xa: "xdotoolAnswers w info xe s out" and e: "trim (toLowerCase out) = []"
    show "cls = None" using gx e getXdotoolWindowClass_answers [OF xa] by simp
  qed
  have c3: "xdotoolFails w info xe s \<longrightarrow> cls = None"
    using getXdotoolWindowClass_fails [of w info xe s cls s1] gx by simp
  have c4: "\<forall>out. cls = None \<and> kdotoolAnswers w s1 out
           \<longrightarrow> b = isTerminalWindow (trim (toLowerCase out))"
  proof (intro allI impI, elim conjE)
    fix out
    assume n: "cls = None" and ka: "kdotoolAnswers w s1 out"
    from it n have "isTerminal w None s1 = (b, s2)" by simp
    then show "b = isTerminalWindow (trim (toLowerCase out))"
      by (rule isTerminal_kdotool_answers [OF ka])
  qed
  have c5: "cls = None \<and> kdotoolFails w s1 \<longrightarrow> \<not> b"
  proof (intro impI, elim conjE)
    assume n: "cls = None" and kf: "kdotoolFails w s1"
    from it n have "isTerminal w None s1 = (b, s2)" by simp
    then show "\<not> b" by (rule isTerminal_kdotool_fails [OF kf])
  qed
  have c6: "\<forall>c. isTerminalWindow c = (\<exists>k. k \<in> set terminalClasses \<and> includes_str c k)"
    by (intro allI) (rule isTerminalWindow_registry)
  have c7: "\<forall>k out. k \<in> set terminalClasses
             \<and> (includes_str out k \<or> includes_str (toLowerCase out) k)
           \<longrightarrow> isTerminalWindow (trim (toLowerCase out))"
  proof (intro allI impI, elim conjE)
    fix k out
    assume "k \<in> set terminalClasses"
      and "includes_str out k \<or> includes_str (toLowerCase out) k"
    then show "isTerminalWindow (trim (toLowerCase out))" by (rule classify_output)
  qed
  show ?thesis
    by (intro conjI c1 c2 c3 c4 c5 c6 c7 registry_members(1) registry_members(2)
          firefox_not_terminal xdotool_probe_cases kdotool_probe_cases)
qed

theorem focused_window_classified_by_registry_witness:
  "xdotoolAnswers (exampleWorld [''xdotool''] ''Konsole'' [] allSucceed)
       (getLinuxSessionInfo x11Env) True (newManager 0 ''old'') ''Konsole''
   \<and> includes_str (toLowerCase ''Konsole'') ''konsole''
   \<and> fst (isTerminal (exampleWorld [''xdotool''] ''Konsole'' [] allSucceed)
          (fst (getXdotoolWindowClass (exampleWorld [''xdotool''] ''Konsole'' [] allSucceed) True
                  (getLinuxSessionInfo x11Env) (newManager 0 ''old'')))
          (snd (getXdotoolWindowClass (exampleWorld [''xdotool''] ''Konsole'' [] allSucceed) True
                  (getLinuxSessionInfo x11Env) (newManager 0 ''old''))))
   \<and> xdotoolAnswers (exampleWorld [''xdotool''] ''firefox'' [] allSucceed)
       (getLinuxSessionInfo x11Env) True (newManager 0 ''old'') ''firefox''
   \<and> \<not> fst (isTerminal (exampleWorld [''xdotool''] ''firefox'' [] allSucceed)
          (fst (getXdotoolWindowClass (exampleWorld [''xdotool''] ''firefox'' [] allSucceed) True
                  (getLinuxSessionInfo x11Env) (newManager 0 ''old'')))
          (snd (getXdotoolWindowClass (exampleWorld [''xdotool''] ''firefox'' [] allSucceed) True
                  (getLinuxSessionInfo x11Env) (newManager 0 ''old''))))
   \<and> xdotoolFails (exampleWorld [] [] [] allSucceed)
       (getLinuxSessionInfo x11Env) False (newManager 0 ''old'')
   \<and> kdotoolFails (exampleWorld [] [] [] allSucceed) (newManager 0 ''old'')
   \<and> \<not> fst (isTerminal (exampleWorld [] [] [] allSucceed)
          (fst (getXdotoolWindowClass (exampleWorld [] [] [] allSucceed) False
                  (getLinuxSessionInfo x11Env) (newManager 0 ''old'')))
          (snd (getXdotoolWindowClass (exampleWorld [] [] [] allSucceed) False
                  (getLinuxSessionInfo x11Env) (newManager 0 ''old''))))
   \<and> xdotoolFails kdeWorld (getLinuxSessionInfo x11Env) True (newManager 0 ''old'')
   \<and> kdotoolAnswers kdeWorld
        (snd (getXdotoolWindowClass kdeWorld True (getLinuxSessionInfo x11Env)
                (newManager 0 ''old''))) ''org.kde.konsole''
   \<and> fst (isTerminal kdeWorld
          (fst (getXdotoolWindowClass kdeWorld True (getLinuxSessionInfo x11Env)
                  (newManager 0 ''old'')))
          (snd (getXdotoolWindowClass kdeWorld True (getLinuxSessionInfo x11Env)
                  (newManager 0 ''old''))))"
proof -
  let ?I = "getLinuxSessionInfo x11Env"
  let ?S = "newManager 0 ''old''"
  let ?K = "exampleWorld [''xdotool''] ''Konsole'' [] allSucceed"
  let ?F = "exampleWorld [''xdotool''] ''firefox'' [] allSucceed"
  let ?N = "exampleWorld [] [] [] allSucceed"
  let ?b = "\<lambda>w xe. fst (isTerminal w (fst (getXdotoolWindowClass w xe ?I ?S))
                         (snd (getXdotoolWindowClass w xe ?I ?S)))"
  have x11: "\<not> isWayland ?I"
    by (simp add: getLinuxSessionInfo_def x11Env_def Let_def toLowerCase_def lowerChar_def
          upperAZ_def lowerAZ_def truthy_def)
  have ka: "xdotoolAnswers ?K ?I True ?S ''Konsole''"
    using x11 by (simp add: xdotoolAnswers_def exampleWorld_def)
  have kl: "includes_str (toLowerCase ''Konsole'') ''konsole''"
    by (simp add: toLowerCase_def lowerChar_def upperAZ_def lowerAZ_def)
  have fa: "xdotoolAnswers ?F ?I True ?S ''firefox''"
    using x11 by (simp add: xdotoolAnswers_def exampleWorld_def)
  have ft: "trim (toLowerCase ''firefox'') = ''firefox''"
    by (simp add: trim_def isWhiteSpace_def toLowerCase_def lowerChar_def upperAZ_def lowerAZ_def)
  have nf: "xdotoolFails ?N ?I False ?S" by (simp add: xdotoolFails_def)
  have nk: "kdotoolFails ?N ?S"
    by (simp add: kdotoolFails_def commandExists_def exampleWorld_def newManager_def Let_def
          whichArgs_def)
  have nk': "kdotoolFails ?N (snd (getXdotoolWindowClass ?N False ?I ?S))"
    using nk by (simp add: getXdotoolWindowClass_def)
  have df: "xdotoolFails kdeWorld ?I True ?S"
    by (simp add: xdotoolFails_def kdeWorld_def)
  have dg: "snd (getXdotoolWindowClass kdeWorld True ?I ?S)
              = record_event (SpawnSync ''xdotool'' xdotoolClassArgs) ?S"
    using x11 by (simp add: getXdotoolWindowClass_def kdeWorld_def Let_def)
  have t42: "trim ''42'' = ''42''" by (simp add: trim_def isWhiteSpace_def)
  have dk: "kdotoolAnswers kdeWorld (snd (getXdotoolWindowClass kdeWorld True ?I ?S))
              ''org.kde.konsole''"
    using t42 unfolding dg
    by (simp add: kdotoolAnswers_def commandExists_def kdeWorld_def newManager_def
          record_event_def Let_def)
  note K = focused_window_classified_by_registry
             [where w = ?K and xe = True and info = ?I and s = ?S, 
              OF prod.collapse [symmetric] prod.collapse [symmetric]]
  note F = focused_window_classified_by_registry
             [where w = ?F and xe = True and info = ?I and s = ?S, 
              OF prod.collapse [symmetric] prod.collapse [symmetric]]
  note N = focused_window_classified_by_registry
             [where w = ?N and xe = False and info = ?I and s = ?S, 
              OF prod.collapse [symmetric] prod.collapse [symmetric]]
  note D = focused_window_classified_by_registry
             [where w = kdeWorld and xe = True and info = ?I and s = ?S,
              OF prod.collapse [symmetric] prod.collapse [symmetric]]
  have kt: "isTerminalWindow (trim (toLowerCase ''Konsole''))"
    using K [THEN conjunct2, THEN conjunct2, THEN conjunct2, THEN conjunct2, THEN conjunct2,
             THEN conjunct2, THEN conjunct1, rule_format, of "''konsole''" "''Konsole''"]
      K [THEN conjunct2, THEN conjunct2, THEN conjunct2, THEN conjunct2, THEN conjunct2,
             THEN conjunct2, THEN conjunct2, THEN conjunct1] kl
    by simp
  then have kne: "trim (toLowerCase ''Konsole'') \<noteq> []" by (rule isTerminalWindow_nonempty)
  have k0: "?b ?K True = isTerminalWindow (trim (toLowerCase ''Konsole''))"
    by (rule K [THEN conjunct1, rule_format, of "''Konsole''", THEN conjunct2])
       (intro conjI ka kne)
  have k: "?b ?K True" using k0 kt by simp
  have fne: "trim (toLowerCase ''firefox'') \<noteq> []" using ft by simp
  have f0: "?b ?F True = isTerminalWindow (trim (toLowerCase ''firefox''))"
    by (rule F [THEN conjunct1, rule_format, of "''firefox''", THEN conjunct2])
       (intro conjI fa fne)
  have f: "\<not> ?b ?F True"
    using f0 ft
      F [THEN conjunct2, THEN conjunct2, THEN conjunct2, THEN conjunct2, THEN conjunct2,
         THEN conjunct2, THEN conjunct2, THEN conjunct2, THEN conjunct2, THEN conjunct1]
    by simp
  have nn: "fst (getXdotoolWindowClass ?N False ?I ?S) = None"
    by (rule N [THEN conjunct2, THEN conjunct2, THEN conjunct1, rule_format, OF nf])
  have n: "\<not> ?b ?N False"
    by (rule N [THEN conjunct2, THEN conjunct2, THEN conjunct2, THEN conjunct2, THEN conjunct1,
                rule_format])
       (intro conjI nn nk')
  have dt: "isTerminalWindow (trim (toLowerCase ''org.kde.konsole''))"
    using D [THEN conjunct2, THEN conjunct2, THEN conjunct2, THEN conjunct2, THEN conjunct2,
             THEN conjunct2, THEN conjunct1, rule_format, of "''konsole''" "''org.kde.konsole''"]
      D [THEN conjunct2, THEN conjunct2, THEN conjunct2, THEN conjunct2, THEN conjunct2,
             THEN conjunct2, THEN conjunct2, THEN conjunct1]
    by simp
  have dn: "fst (getXdotoolWindowClass kdeWorld True ?I ?S) = None"
    by (rule D [THEN conjunct2, THEN conjunct2, THEN conjunct1, rule_format, OF df])
  have d0: "?b kdeWorld True = isTerminalWindow (trim (toLowerCase ''org.kde.konsole''))"
    by (rule D [THEN conjunct2, THEN conjunct2, THEN conjunct2, THEN conjunct1, rule_format,
                of "''org.kde.konsole''"])
       (intro conjI dn dk)
  have d: "?b kdeWorld True" using d0 dt by simp
  show ?thesis
    by (intro conjI ka kl k fa f nf nk n df dk d)
qed

section \<open>The terminal chord\<close>

lemma pasteWith_spawns:
  "filter isSpawn (trace (snd (pasteWith w orig t s)))
     = filter isSpawn (trace s) @ [Spawn (cmd t) (args t)]"
  by (simp add: pasteWith_def Let_def killProcess_def schedule_restore_def
           split: settled.splits)

lemma tryTools_single:
  "snd (tryTools w orig [t] s) = snd (pasteWith w orig t s)"
  by (cases "pasteWith w orig t s") (auto split: sum.splits)

lemma filterAvailable_cached:
  assumes "\<forall>c \<in> set cs. cachedFresh s (cmd c) (avail (cmd c))"
  shows "filterAvailable w cs s = (filter (\<lambda>c. avail (cmd c)) cs, s)"
  using assms
proof (induction cs)
  case Nil
  then show ?case by simp
next
  case (Cons c cs)
  then have "commandExists w (cmd c) s = (avail (cmd c), s)"
    by (simp add: commandExists_hit)
  with Cons show ?case by simp
qed

lemma candidates_terminal:
  "candidates cw cx True =
     (if cw then [\<lparr>cmd = ''wtype'',
                   args = [''-M'', ''ctrl'', ''-M'', ''shift'', ''-k'', ''v'',
                           ''-m'', ''shift'', ''-m'', ''ctrl'']\<rparr>] else [])
     @ (if cx then [\<lparr>cmd = ''xdotool'', args = [''key'', ''ctrl+shift+v'']\<rparr>] else [])"
  by (simp add: candidates_def)

lemma pasteLinux_steps:
  assumes "commandExists w ''xdotool'' s = (xe, s1)"
    and "commandExists w ''wtype'' s1 = (we, s2)"
    and "getXdotoolWindowClass w xe (getLinuxSessionInfo e) s2 = (cls, s3)"
    and "isTerminal w cls s3 = (b, s4)"
    and "filterAvailable w
           (candidates (isWayland (getLinuxSessionInfo e) \<and> \<not> isGnome (getLinuxSessionInfo e))
              (if isWayland (getLinuxSessionInfo e) then cls \<noteq> None else xe) b) s4 = (av, s5)"
    and "tryTools w orig av s5 = (ok, s6)"
  shows "pasteLinux w e orig s =
           (if ok then Inr ()
            else Inl (PasteSimulationFailed (linuxErrorMsg (getLinuxSessionInfo e) xe we cls)), s6)"
  by (simp add: pasteLinux_def assms Let_def)

lemma pasteLinux_x11_terminal_chord:
  assumes x11: "\<not> isWayland (getLinuxSessionInfo e)"
    and xe: "fst (commandExists w ''xdotool'' s)"
    and xa: "xdotoolAnswers w (getLinuxSessionInfo e) True s out"
    and tw: "isTerminalWindow (trim (toLowerCase out))"
  shows "filter isSpawn (trace (snd (pasteLinux w e orig s)))
           = filter isSpawn (trace s) @ [Spawn ''xdotool'' [''key'', ''ctrl+shift+v'']]"
proof -
  let ?info = "getLinuxSessionInfo e"
  let ?t = "\<lparr>cmd = ''xdotool'', args = [''key'', ''ctrl+shift+v'']\<rparr>"
  obtain s1 where c1: "commandExists w ''xdotool'' s = (True, s1)"
    using xe by (cases "commandExists w ''xdotool'' s") auto
  obtain we s2 where c2: "commandExists w ''wtype'' s1 = (we, s2)"
    by (cases "commandExists w ''wtype'' s1")
  have p2: "probesOnly s s2"
    using commandExists_probesOnly [OF c1] commandExists_probesOnly [OF c2] probesOnly_trans
    by blast
  have f2: "cachedFresh s2 ''xdotool'' True"
    using commandExists_fresh [OF c1] commandExists_keeps_fresh [OF c2] by blast
  have xa2: "xdotoolAnswers w ?info True s2 out"
    using xa p2 by (simp add: xdotoolAnswers_def probesOnly_def)
  let ?s3 = "record_event (SpawnSync ''xdotool'' xdotoolClassArgs) s2"
  have ne: "trim (toLowerCase out) \<noteq> []" using tw by (rule isTerminalWindow_nonempty)
  have gx: "getXdotoolWindowClass w True ?info s2 = (Some (trim (toLowerCase out)), ?s3)"
    using getXdotoolWindowClass_answers [OF xa2] ne by simp
  have it: "isTerminal w (Some (trim (toLowerCase out))) ?s3 = (True, ?s3)"
    using tw by (simp add: isTerminal_of_class)
  have f3: "cachedFresh ?s3 ''xdotool'' True" using f2 by simp
  have fa: "filterAvailable w [?t] ?s3 = ([?t], ?s3)"
    using filterAvailable_cached [of "[?t]" ?s3 "\<lambda>c. True" w] f3 by simp
  have p3: "probesOnly s ?s3" using p2 probesOnly_append by blast
  have fa': "filterAvailable w
           (candidates (isWayland ?info \<and> \<not> isGnome ?info)
              (if isWayland ?info then Some (trim (toLowerCase out)) \<noteq> None else True) True) ?s3
          = ([?t], ?s3)"
    using x11 fa by (simp add: candidates_terminal)
  have "snd (pasteLinux w e orig s) = snd (tryTools w orig [?t] ?s3)"
    using pasteLinux_steps [OF c1 c2 gx it fa' surjective_pairing] by simp
  then have "snd (pasteLinux w e orig s) = snd (pasteWith w orig ?t ?s3)"
    by (simp only: tryTools_single)
  then show ?thesis
    using probesOnly_spawns [OF p3] by (simp add: pasteWith_spawns)
qed

lemma commandExists_writeText:
  "fst (commandExists w c (writeText t s)) = fst (commandExists w c s)"
  by (simp add: commandExists_def Let_def split: option.splits)

lemma xdotoolAnswers_writeText [simp]:
  "xdotoolAnswers w info xe (writeText t s) out = xdotoolAnswers w info xe s out"
  by (simp add: xdotoolAnswers_def)

lemma pasteText_linux:
  assumes "platform \<noteq> ''darwin''" and "platform \<noteq> ''win32''"
  shows "pasteText w e platform text s =
           Some ((fst (pasteLinux w e (clipboard s) (writeText text s)), ''linux-tools''),
                 snd (pasteLinux w e (clipboard s) (writeText text s)))"
  using assms by (simp add: pasteText_def Let_def split: prod.splits)

lemma st_cls:
  assumes st: "includes_str (toLowerCase out) ''st''"
   and "getXdotoolWindowClass w xe info s = (cls, s1)"
      and "isTerminal w cls s1 = (b, s2)"
      and "xdotoolAnswers w info xe s out \<or> (xdotoolFails w info xe s \<and> kdotoolAnswers w s1 out)"
  shows b
proof -
  have tw: "isTerminalWindow (trim (toLowerCase out))"
    using classify_output [OF registry_members(3)] st by blast
  then have ne: "trim (toLowerCase out) \<noteq> []" by (rule isTerminalWindow_nonempty)
  show ?thesis
    using classification_of_output [OF assms(2,3,4) ne] tw by simp
qed

lemma st_e2e:
  assumes tw: "isTerminalWindow (trim (toLowerCase out))"
    and "platform \<noteq> ''darwin''" "platform \<noteq> ''win32''"
      and x11: "\<not> isWayland (getLinuxSessionInfo e)"
      and xe: "fst (commandExists w ''xdotool'' s)"
      and xa: "xdotoolAnswers w (getLinuxSessionInfo e) True s out"
  shows "\<exists>r s'. pasteText w e platform text s = Some (r, s')
                   \<and> filter isSpawn (trace s')
                       = filter isSpawn (trace s) @ [Spawn ''xdotool'' [''key'', ''ctrl+shift+v'']]"
  proof -
    have xe': "fst (commandExists w ''xdotool'' (writeText text s))"
      using xe by (simp add: commandExists_writeText)
    have xa': "xdotoolAnswers w (getLinuxSessionInfo e) True (writeText text s) out"
      using xa by simp
    have "filter isSpawn (trace (snd (pasteLinux w e (clipboard s) (writeText text s))))
           = filter isSpawn (trace (writeText text s))
             @ [Spawn ''xdotool'' [''key'', ''ctrl+shift+v'']]"
      using pasteLinux_x11_terminal_chord [OF x11 xe' xa' tw] .
    then show ?thesis using pasteText_linux [OF assms(2,3)] by simp
  qed

text \<open>
  C10. The registry holds the two-character entry st and the match is by substring: every
  window class whose lower-cased name contains st (Steam, for one) classifies as a
  terminal, through xdotool as through kdotool; the candidates for a terminal carry the
  three-key chord; and pasteText on Linux under X11 with xdotool then sends
  ctrl+shift+v, and nothing else, to such a window.
\<close>

theorem st_entry_classifies_as_terminal:
  assumes st: "includes_str (toLowerCase out) ''st''"
  shows "isTerminalWindow (trim (toLowerCase out))
       \<and> (\<forall>w xe info s cls s1 b s2.
            getXdotoolWindowClass w xe info s = (cls, s1) \<and> isTerminal w cls s1 = (b, s2)
            \<and> (xdotoolAnswers w info xe s out
                \<or> (xdotoolFails w info xe s \<and> kdotoolAnswers w s1 out))
            \<longrightarrow> b)
       \<and> (\<forall>cw cx. candidates cw cx True =
            (if cw then [\<lparr>cmd = ''wtype'',
                          args = [''-M'', ''ctrl'', ''-M'', ''shift'', ''-k'', ''v'',
                                  ''-m'', ''shift'', ''-m'', ''ctrl'']\<rparr>] else [])
            @ (if cx then [\<lparr>cmd = ''xdotool'', args = [''key'', ''ctrl+shift+v'']\<rparr>] else []))
       \<and> (\<forall>w e platform text s.
            platform \<noteq> ''darwin'' \<and> platform \<noteq> ''win32''
            \<and> \<not> isWayland (getLinuxSessionInfo e)
            \<and> fst (commandExists w ''xdotool'' s)
            \<and> xdotoolAnswers w (getLinuxSessionInfo e) True s out
            \<longrightarrow> (\<exists>r s'. pasteText w e platform text s = Some (r, s')
                   \<and> filter isSpawn (trace s')
                       = filter isSpawn (trace s) @ [Spawn ''xdotool'' [''key'', ''ctrl+shift+v'']]))"
proof -
  have tw: "isTerminalWindow (trim (toLowerCase out))"
    using classify_output [OF registry_members(3)] st by blast
  have c: "\<forall>w xe info s cls s1 b s2.
            getXdotoolWindowClass w xe info s = (cls, s1) \<and> isTerminal w cls s1 = (b, s2)
            \<and> (xdotoolAnswers w info xe s out
                \<or> (xdotoolFails w info xe s \<and> kdotoolAnswers w s1 out))
            \<longrightarrow> b"
    by (intro allI impI, elim conjE, rule st_cls [OF st])
  have ct: "\<forall>cw cx. candidates cw cx True =
            (if cw then [\<lparr>cmd = ''wtype'',
                          args = [''-M'', ''ctrl'', ''-M'', ''shift'', ''-k'', ''v'',
                                  ''-m'', ''shift'', ''-m'', ''ctrl'']\<rparr>] else [])
            @ (if cx then [\<lparr>cmd = ''xdotool'', args = [''key'', ''ctrl+shift+v'']\<rparr>] else [])"
    by (intro allI, rule candidates_terminal)
  have e: "\<forall>w e platform text s.
            platform \<noteq> ''darwin'' \<and> platform \<noteq> ''win32''
            \<and> \<not> isWayland (getLinuxSessionInfo e)
            \<and> fst (commandExists w ''xdotool'' s)
            \<and> xdotoolAnswers w (getLinuxSessionInfo e) True s out
            \<longrightarrow> (\<exists>r s'. pasteText w e platform text s = Some (r, s')
                   \<and> filter isSpawn (trace s')
                       = filter isSpawn (trace s) @ [Spawn ''xdotool'' [''key'', ''ctrl+shift+v'']])"
    by (intro allI impI, elim conjE, rule st_e2e [OF tw])
  show ?thesis
    apply (rule conjI) apply (rule tw)
    apply (rule conjI) apply (rule c)
    apply (rule conjI) apply (rule ct)
    apply (rule e)
    done
qed

theorem st_entry_classifies_as_terminal_witness:
  "includes_str (toLowerCase ''Steam'') ''st''
   \<and> isTerminalWindow (trim (toLowerCase ''Steam''))
   \<and> \<not> isWayland (getLinuxSessionInfo x11Env)
   \<and> fst (commandExists (exampleWorld [''xdotool''] ''Steam'' [] allSucceed) ''xdotool''
            (newManager 0 ''old''))
   \<and> xdotoolAnswers (exampleWorld [''xdotool''] ''Steam'' [] allSucceed)
        (getLinuxSessionInfo x11Env) True (newManager 0 ''old'') ''Steam''
   \<and> (\<exists>r s'. pasteText (exampleWorld [''xdotool''] ''Steam'' [] allSucceed) x11Env ''linux''
                 ''hello'' (newManager 0 ''old'') = Some (r, s')
             \<and> filter isSpawn (trace s') = [Spawn ''xdotool'' [''key'', ''ctrl+shift+v'']])"
proof -
  let ?W = "exampleWorld [''xdotool''] ''Steam'' [] allSucceed"
  let ?S = "newManager 0 ''old''"
  have st: "includes_str (toLowerCase ''Steam'') ''st''"
    by (simp add: toLowerCase_def lowerChar_def upperAZ_def lowerAZ_def)
  have x11: "\<not> isWayland (getLinuxSessionInfo x11Env)"
    by (simp add: getLinuxSessionInfo_def x11Env_def Let_def toLowerCase_def lowerChar_def
          upperAZ_def lowerAZ_def truthy_def)
  have xe: "fst (commandExists ?W ''xdotool'' ?S)"
    by (simp add: commandExists_def exampleWorld_def newManager_def whichArgs_def Let_def)
  have xa: "xdotoolAnswers ?W (getLinuxSessionInfo x11Env) True ?S ''Steam''"
    using x11 by (simp add: xdotoolAnswers_def exampleWorld_def)
  have tr: "filter isSpawn (trace ?S) = []" by (simp add: newManager_def)
  have l: "''linux'' \<noteq> ''darwin''" "''linux'' \<noteq> ''win32''" by simp_all
  note th = st_entry_classifies_as_terminal [OF st]
  have tw: "isTerminalWindow (trim (toLowerCase ''Steam''))"
    using th by (rule conjunct1)
  have "\<exists>r s'. pasteText ?W x11Env ''linux'' ''hello'' ?S = Some (r, s')
          \<and> filter isSpawn (trace s')
              = filter isSpawn (trace ?S) @ [Spawn ''xdotool'' [''key'', ''ctrl+shift+v'']]"
    using th [THEN conjunct2, THEN conjunct2, THEN conjunct2, rule_format,
              of "''linux''" x11Env ?W ?S "''hello''"] x11 xe xa l
    by simp
  then have e2e: "\<exists>r s'. pasteText ?W x11Env ''linux'' ''hello'' ?S = Some (r, s')
          \<and> filter isSpawn (trace s') = [Spawn ''xdotool'' [''key'', ''ctrl+shift+v'']]"
    by (simp add: tr)
  show ?thesis using st tw x11 xe xa e2e by (intro conjI)
qed

section \<open>The tool availability cache over time\<close>

lemma cachedFresh_advance_to [simp]:
  "cachedFresh (advance_to t s) c ex = cachedFresh (s\<lparr>now := t\<rparr>) c ex"
  by (simp add: cachedFresh_iff advance_to_def Let_def)

lemma commandExists_miss:
  assumes "\<forall>v. \<not> cachedFresh s c v"
  shows "commandExists w c s =
           ((case runSync w ''sh'' (whichArgs c) (now s) of
               Returned status out \<Rightarrow> status = Some 0 | Threw \<Rightarrow> False),
            s\<lparr>trace := trace s @ [SpawnSync ''sh'' (whichArgs c)],
              commandAvailabilityCache :=
                (commandAvailabilityCache s)
                  (c \<mapsto> ((case runSync w ''sh'' (whichArgs c) (now s) of
                             Returned status out \<Rightarrow> status = Some 0 | Threw \<Rightarrow> False),
                          now s + CACHE_TTL_MS))\<rparr>)"
  using assms
  by (auto simp: cachedFresh_iff commandExists_def record_event_def Let_def
           split: option.splits)

lemma expired_not_fresh:
  "commandAvailabilityCache s c = Some (v, x) \<Longrightarrow> x \<le> now s \<Longrightarrow> \<not> cachedFresh s c v'"
  by (simp add: cachedFresh_iff)

lemma absent_not_fresh:
  "commandAvailabilityCache s c = None \<Longrightarrow> \<not> cachedFresh s c v'"
  by (simp add: cachedFresh_iff)

lemma commandExists_fresh_until:
  assumes ce: "commandExists w c s = (ex, s1)"
    and pre: "\<forall>v x. commandAvailabilityCache s c = Some (v, x) \<longrightarrow> x \<le> now s \<or> t < x"
    and t: "t < now s + CACHE_TTL_MS"
  shows "cachedFresh (s1\<lparr>now := t\<rparr>) c ex"
  using commandExists_cases [OF ce] pre t
  by (auto simp: cachedFresh_iff)

lemma commandExists_keeps_fresh_until:
  assumes ce: "commandExists w c' s = (ex', s1)"
    and f: "cachedFresh (s\<lparr>now := t\<rparr>) c ex" and ne: "c' \<noteq> c"
  shows "cachedFresh (s1\<lparr>now := t\<rparr>) c ex"
  using commandExists_cases [OF ce] f ne
  by (auto simp: cachedFresh_iff)

lemma commandExists_other_entry:
  assumes ce: "commandExists w c' s = (ex', s1)" and ne: "c' \<noteq> c"
  shows "commandAvailabilityCache s1 c = commandAvailabilityCache s c \<and> now s1 = now s"
  using commandExists_cases [OF ce] ne by auto

lemma probe_window:
  assumes nf: "\<forall>v. \<not> cachedFresh s c v"
    and ce: "commandExists w c s = (ex, s1)"
    and t: "t < now s + CACHE_TTL_MS"
  shows "commandExists w' c (advance_to t s1) = (ex, advance_to t s1)"
proof -
  have "\<forall>v x. commandAvailabilityCache s c = Some (v, x) \<longrightarrow> x \<le> now s \<or> t < x"
    using nf by (auto simp: cachedFresh_iff)
  then have "cachedFresh (s1\<lparr>now := t\<rparr>) c ex"
    using commandExists_fresh_until [OF ce _ t] by blast
  then show ?thesis by (simp add: commandExists_hit)
qed


lemma checkPasteTools_repeat:
  assumes pre: "\<forall>c v x. commandAvailabilityCache s c = Some (v, x) \<longrightarrow> x \<le> now s \<or> t < x"
    and t: "t < now s + CACHE_TTL_MS"
    and cp: "checkPasteTools w e platform s = (r, s1)"
  shows "checkPasteTools w' e platform (advance_to t s1) = (r, advance_to t s1)"
proof (cases "platform = ''darwin'' \<or> platform = ''win32''")
  case True
  then show ?thesis using cp by (auto simp: checkPasteTools_def)
next
  case False
  let ?info = "getLinuxSessionInfo e"
  let ?cw = "isWayland ?info \<and> \<not> isGnome ?info"
  let ?cx = "\<not> isWayland ?info \<or> xwaylandAvailable ?info"
  let ?S = "advance_to t s1"
  obtain hw sa where a: "(if ?cw then commandExists w ''wtype'' s else (False, s)) = (hw, sa)"
    by (cases "if ?cw then commandExists w ''wtype'' s else (False, s)")
  obtain hx sb where b: "(if ?cx then commandExists w ''xdotool'' sa else (False, sa)) = (hx, sb)"
    by (cases "if ?cx then commandExists w ''xdotool'' sa else (False, sa)")
  have r: "checkPasteTools w e platform s =
      (fst (checkPasteTools w e platform s), sb)"
    using False a b by (simp add: checkPasteTools_def Let_def)
  then have sb: "sb = s1" using cp by simp
  have sa_x: "commandAvailabilityCache sa ''xdotool'' = commandAvailabilityCache s ''xdotool''
              \<and> now sa = now s"
  proof (cases ?cw)
    case True
    then have "commandExists w ''wtype'' s = (hw, sa)" using a by simp
    then show ?thesis using commandExists_other_entry [of w "''wtype''" s hw sa "''xdotool''"]
      by simp
  next
    case False
    then show ?thesis using a by (auto split: if_splits)
  qed
  have fw: "cachedFresh (s1\<lparr>now := t\<rparr>) ''wtype'' hw" if cw: ?cw
  proof -
    have ce: "commandExists w ''wtype'' s = (hw, sa)" using a cw by simp
    have fa: "cachedFresh (sa\<lparr>now := t\<rparr>) ''wtype'' hw"
      using commandExists_fresh_until [OF ce _ t] pre by blast
    show ?thesis
    proof (cases ?cx)
      case True
      then have "commandExists w ''xdotool'' sa = (hx, s1)" using b sb by simp
      then show ?thesis
        using commandExists_keeps_fresh_until [of w "''xdotool''" sa hx s1 t "''wtype''" hw] fa
        by simp
    next
      case False
      then have "sa = s1" using b sb by (auto split: if_splits)
      then show ?thesis using fa by simp
    qed
  qed
  have fx: "cachedFresh (s1\<lparr>now := t\<rparr>) ''xdotool'' hx" if cx: ?cx
  proof -
    have ce: "commandExists w ''xdotool'' sa = (hx, s1)" using b cx sb by simp
    have p: "\<forall>v x. commandAvailabilityCache sa ''xdotool'' = Some (v, x) \<longrightarrow> x \<le> now sa \<or> t < x"
      using pre sa_x by simp
    have t': "t < now sa + CACHE_TTL_MS" using t sa_x by simp
    show ?thesis using commandExists_fresh_until [OF ce p t'] .
  qed
  have a2: "(if ?cw then commandExists w' ''wtype'' ?S else (False, ?S)) = (hw, ?S)"
  proof (cases ?cw)
    case True
    then show ?thesis using fw by (simp add: commandExists_hit)
  next
    case False
    then show ?thesis using a by (auto split: if_splits)
  qed
  have b2: "(if ?cx then commandExists w' ''xdotool'' ?S else (False, ?S)) = (hx, ?S)"
  proof (cases ?cx)
    case True
    then show ?thesis using fx by (simp add: commandExists_hit)
  next
    case False
    then show ?thesis using b by (auto split: if_splits)
  qed
  have "fst (checkPasteTools w' e platform ?S) = fst (checkPasteTools w e platform s)"
    and "snd (checkPasteTools w' e platform ?S) = ?S"
    using False a b a2 b2 by (simp_all add: checkPasteTools_def Let_def)
  then show ?thesis using cp by (simp add: prod_eq_iff)
qed


lemma stale_not_fresh:
  assumes "commandAvailabilityCache s c = None
           \<or> (\<exists>v x. commandAvailabilityCache s c = Some (v, x) \<and> x \<le> now s)"
  shows "\<forall>v. \<not> cachedFresh s c v"
  using assms by (auto simp: cachedFresh_iff)

lemma cache_hit:
  "(commandAvailabilityCache s c = Some (ex, x) \<and> now s < x \<longrightarrow> commandExists w c s = (ex, s))"
  by (auto simp: cachedFresh_iff intro!: commandExists_hit)

lemma cache_miss:
  "((commandAvailabilityCache s c = None
           \<or> (\<exists>v x. commandAvailabilityCache s c = Some (v, x) \<and> x \<le> now s))
         \<longrightarrow> (let ex = (case runSync w ''sh'' (whichArgs c) (now s) of
                           Returned status out \<Rightarrow> status = Some 0 | Threw \<Rightarrow> False)
              in commandExists w c s =
                   (ex, s\<lparr>trace := trace s @ [SpawnSync ''sh'' (whichArgs c)],
                          commandAvailabilityCache :=
                            (commandAvailabilityCache s)(c \<mapsto> (ex, now s + CACHE_TTL_MS))\<rparr>)))"
  using commandExists_miss [OF stale_not_fresh, of s c w] by (auto simp: Let_def)

lemma cache_spawn_failure:
  "((commandAvailabilityCache s c = None
           \<or> (\<exists>v x. commandAvailabilityCache s c = Some (v, x) \<and> x \<le> now s))
         \<and> (runSync w ''sh'' (whichArgs c) (now s) = Threw
              \<or> (\<exists>out. runSync w ''sh'' (whichArgs c) (now s) = Returned None out))
         \<longrightarrow> commandExists w c s =
               (False, s\<lparr>trace := trace s @ [SpawnSync ''sh'' (whichArgs c)],
                         commandAvailabilityCache :=
                           (commandAvailabilityCache s)(c \<mapsto> (False, now s + CACHE_TTL_MS))\<rparr>))"
proof
  assume a: "(commandAvailabilityCache s c = None
           \<or> (\<exists>v x. commandAvailabilityCache s c = Some (v, x) \<and> x \<le> now s))
         \<and> (runSync w ''sh'' (whichArgs c) (now s) = Threw
              \<or> (\<exists>out. runSync w ''sh'' (whichArgs c) (now s) = Returned None out))"
  then have "(case runSync w ''sh'' (whichArgs c) (now s) of
                Returned status out \<Rightarrow> status = Some 0 | Threw \<Rightarrow> False) = False"
    by auto
  then show "commandExists w c s =
               (False, s\<lparr>trace := trace s @ [SpawnSync ''sh'' (whichArgs c)],
                         commandAvailabilityCache :=
                           (commandAvailabilityCache s)(c \<mapsto> (False, now s + CACHE_TTL_MS))\<rparr>)"
    using commandExists_miss [OF stale_not_fresh, of s c w] a by simp
qed

lemma cache_window:
  "((commandAvailabilityCache s c = None
           \<or> (\<exists>v x. commandAvailabilityCache s c = Some (v, x) \<and> x \<le> now s))
         \<and> commandExists w c s = (ex, s1) \<and> t < now s + CACHE_TTL_MS
         \<longrightarrow> commandExists w' c (advance_to t s1) = (ex, advance_to t s1))"
  using probe_window [OF stale_not_fresh, of s c w ex s1 t w'] by blast

lemma cache_checkPasteTools:
  "((\<forall>tool v x. commandAvailabilityCache s tool = Some (v, x) \<longrightarrow> x \<le> now s \<or> t < x)
         \<and> t < now s + CACHE_TTL_MS \<and> checkPasteTools w e platform s = (r, s2)
         \<longrightarrow> checkPasteTools w' e platform (advance_to t s2) = (r, advance_to t s2))"
  using checkPasteTools_repeat [of s t w e platform r s2 w'] by blast

text \<open>
  C5. commandExists answers from its cache while the entry of the tool is unexpired
  (\<open>now < expiresAt\<close>): the cached boolean is returned and the state, trace included, is
  unchanged, so no child is started. With no entry, or at or after expiry, it starts the
  \<open>command -v\<close> probe once and caches the answer for 30000 ms; a probe that throws or
  ends without a status is cached and returned as not available. After a probe every
  call within the next 30000 ms is answered from the cache, whatever the world has
  become. Hence a second checkPasteTools, made at a time at which every entry that the
  first call found unexpired is still unexpired and within 30000 ms of the first call,
  returns the same result and leaves the state, trace included, unchanged.
\<close>

theorem tool_availability_cache:
  "(commandAvailabilityCache s c = Some (ex, x) \<and> now s < x \<longrightarrow> commandExists w c s = (ex, s))
   \<and> ((commandAvailabilityCache s c = None
           \<or> (\<exists>v x. commandAvailabilityCache s c = Some (v, x) \<and> x \<le> now s))
         \<longrightarrow> (let ex = (case runSync w ''sh'' (whichArgs c) (now s) of
                           Returned status out \<Rightarrow> status = Some 0 | Threw \<Rightarrow> False)
              in commandExists w c s =
                   (ex, s\<lparr>trace := trace s @ [SpawnSync ''sh'' (whichArgs c)],
                          commandAvailabilityCache :=
                            (commandAvailabilityCache s)(c \<mapsto> (ex, now s + CACHE_TTL_MS))\<rparr>)))
   \<and> ((commandAvailabilityCache s c = None
           \<or> (\<exists>v x. commandAvailabilityCache s c = Some (v, x) \<and> x \<le> now s))
         \<and> (runSync w ''sh'' (whichArgs c) (now s) = Threw
              \<or> (\<exists>out. runSync w ''sh'' (whichArgs c) (now s) = Returned None out))
         \<longrightarrow> commandExists w c s =
               (False, s\<lparr>trace := trace s @ [SpawnSync ''sh'' (whichArgs c)],
                         commandAvailabilityCache :=
                           (commandAvailabilityCache s)(c \<mapsto> (False, now s + CACHE_TTL_MS))\<rparr>))
   \<and> ((commandAvailabilityCache s c = None
           \<or> (\<exists>v x. commandAvailabilityCache s c = Some (v, x) \<and> x \<le> now s))
         \<and> commandExists w c s = (ex, s1) \<and> t < now s + CACHE_TTL_MS
         \<longrightarrow> commandExists w' c (advance_to t s1) = (ex, advance_to t s1))
   \<and> ((\<forall>tool v x. commandAvailabilityCache s tool = Some (v, x) \<longrightarrow> x \<le> now s \<or> t < x)
         \<and> t < now s + CACHE_TTL_MS \<and> checkPasteTools w e platform s = (r, s2)
         \<longrightarrow> checkPasteTools w' e platform (advance_to t s2) = (r, advance_to t s2))"
  by (intro conjI cache_hit cache_miss cache_spawn_failure cache_window cache_checkPasteTools)


theorem tool_availability_cache_witness:
  "commandAvailabilityCache (newManager 1000 ''old'') ''xdotool'' = None
   \<and> (30999::nat) < now (newManager 1000 ''old'') + CACHE_TTL_MS
   \<and> fst (commandExists (exampleWorld [''xdotool''] [] [] allSucceed) ''xdotool''
            (newManager 1000 ''old''))
   \<and> commandExists (exampleWorld [] [] [] allSucceed) ''xdotool''
        (advance_to 30999
           (snd (commandExists (exampleWorld [''xdotool''] [] [] allSucceed) ''xdotool''
                   (newManager 1000 ''old''))))
       = (True,
          advance_to 30999
           (snd (commandExists (exampleWorld [''xdotool''] [] [] allSucceed) ''xdotool''
                   (newManager 1000 ''old''))))
   \<and> checkPasteTools (exampleWorld [] [] [] allSucceed) x11Env ''linux''
        (advance_to 30999
           (snd (checkPasteTools (exampleWorld [''xdotool''] [] [] allSucceed) x11Env ''linux''
                   (newManager 1000 ''old''))))
       = (fst (checkPasteTools (exampleWorld [''xdotool''] [] [] allSucceed) x11Env ''linux''
                 (newManager 1000 ''old'')),
          advance_to 30999
           (snd (checkPasteTools (exampleWorld [''xdotool''] [] [] allSucceed) x11Env ''linux''
                   (newManager 1000 ''old''))))"
proof -
  let ?W1 = "exampleWorld [''xdotool''] [] [] allSucceed"
  let ?W2 = "exampleWorld [] [] [] allSucceed"
  let ?S = "newManager 1000 ''old''"
  have none: "commandAvailabilityCache ?S ''xdotool'' = None" by (simp add: newManager_def)
  have t: "(30999::nat) < now ?S + CACHE_TTL_MS"
    by (simp add: newManager_def CACHE_TTL_MS_def)
  have xe: "fst (commandExists ?W1 ''xdotool'' ?S)"
    by (simp add: commandExists_def exampleWorld_def newManager_def whichArgs_def Let_def)
  have pre: "\<forall>tool v x. commandAvailabilityCache ?S tool = Some (v, x)
               \<longrightarrow> x \<le> now ?S \<or> (30999::nat) < x"
    by (simp add: newManager_def)
  have w: "commandExists ?W2 ''xdotool'' (advance_to 30999 (snd (commandExists ?W1 ''xdotool'' ?S)))
       = (fst (commandExists ?W1 ''xdotool'' ?S),
          advance_to 30999 (snd (commandExists ?W1 ''xdotool'' ?S)))"
    using tool_availability_cache
      [where s = ?S and c = "''xdotool''" and w = ?W1 and t = 30999 and w' = ?W2
         and ex = "fst (commandExists ?W1 ''xdotool'' ?S)"
         and ?s1.0 = "snd (commandExists ?W1 ''xdotool'' ?S)",
       THEN conjunct2, THEN conjunct2, THEN conjunct2, THEN conjunct1] none t
    by simp
  have cp: "checkPasteTools ?W2 x11Env ''linux''
              (advance_to 30999 (snd (checkPasteTools ?W1 x11Env ''linux'' ?S)))
       = (fst (checkPasteTools ?W1 x11Env ''linux'' ?S),
          advance_to 30999 (snd (checkPasteTools ?W1 x11Env ''linux'' ?S)))"
    using tool_availability_cache
      [where s = ?S and w = ?W1 and t = 30999 and w' = ?W2 and e = x11Env
         and platform = "''linux''"
         and r = "fst (checkPasteTools ?W1 x11Env ''linux'' ?S)"
         and ?s2.0 = "snd (checkPasteTools ?W1 x11Env ''linux'' ?S)",
       THEN conjunct2, THEN conjunct2, THEN conjunct2, THEN conjunct2] pre t
    by simp
  show ?thesis using none t xe w cp by simp
qed

lemma getNircmdPath_again:
  "getNircmdPath w platform s = (Some p, s2) \<Longrightarrow> getNircmdPath w platform s2 = (Some p, s2)"
  by (auto simp: getNircmdPath_def Let_def split: if_splits option.splits)

lemma getNircmdPath_again_none:
  "nircmdInv s \<Longrightarrow> getNircmdPath w platform s = (None, s2)
   \<Longrightarrow> getNircmdPath w platform s2 = (None, s2)"
  by (auto simp: getNircmdPath_def nircmdInv_def Let_def split: if_splits option.splits)

lemma getNircmdPath_frame:
  "getNircmdPath w platform s = (p, s2)
   \<Longrightarrow> now s2 = now s \<and> clipboard s2 = clipboard s \<and> timers s2 = timers s
       \<and> trace s2 = trace s \<and> accessibilityCache s2 = accessibilityCache s
       \<and> commandAvailabilityCache s2 = commandAvailabilityCache s"
  by (auto simp: getNircmdPath_def Let_def split: if_splits option.splits)

lemma getNircmdPath_writeText:
  "fst (getNircmdPath w platform (writeText t s)) = fst (getNircmdPath w platform s)"
  by (simp add: getNircmdPath_def Let_def split: option.splits)

lemma nircmdInv_writeText [simp]: "nircmdInv (writeText t s) = nircmdInv s"
  by (simp add: nircmdInv_def)

lemma pasteText_win32_nircmd:
  assumes "getNircmdPath w ''win32'' (writeText delivered s) = (Some p, s2)"
  shows "pasteText w e ''win32'' delivered s =
           Some ((fst (pasteWithNircmd w p (clipboard s) s2), ''nircmd''),
                 snd (pasteWithNircmd w p (clipboard s) s2))"
  using assms getNircmdPath_again [OF assms]
  by (simp add: pasteText_def pasteWindows_def Let_def split: prod.splits)

lemma pasteText_win32_powershell:
  assumes "nircmdInv s" and "getNircmdPath w ''win32'' (writeText delivered s) = (None, s2)"
  shows "pasteText w e ''win32'' delivered s =
           Some ((fst (pasteWithPowerShell w (clipboard s) s2), ''powershell''),
                 snd (pasteWithPowerShell w (clipboard s) s2))"
  using assms getNircmdPath_again_none [of "writeText delivered s" w "''win32''" s2]
  by (simp add: pasteText_def pasteWindows_def Let_def split: prod.splits)

lemma pasteWithPowerShell_spawns:
  "filter isSpawn (trace (snd (pasteWithPowerShell w orig s)))
     = filter isSpawn (trace s) @ [Spawn ''powershell.exe'' pwshArgs]"
  by (simp add: pasteWithPowerShell_def Let_def split: settled.splits)

lemma pasteWithPowerShellTwice_spawns:
  "filter isSpawn (trace (snd (pasteWithPowerShellTwice w orig s)))
     = filter isSpawn (trace s)
       @ [Spawn ''powershell.exe'' pwshArgs, Spawn ''powershell.exe'' pwshArgs]"
  by (simp add: pasteWithPowerShellTwice_def Let_def split: settled.splits)

lemma pasteWithPowerShell_decided:
  "(fst (pasteWithPowerShell w orig s) = Inr ())
     = (\<not> failed (settle 5000
           (runAsync w ''powershell.exe'' pwshArgs (now s + PASTE_DELAY_win32_pwsh))))"
  by (simp add: pasteWithPowerShell_def Let_def split: settled.splits)

lemma pasteWithPowerShellTwice_decided:
  "(fst (pasteWithPowerShellTwice w orig s) = Inr ())
     = (\<not> failed
          (if settleTime 5000 (settle 5000
                 (runAsync w ''powershell.exe'' pwshArgs (now s + PASTE_DELAY_win32_pwsh)))
              \<le> settleTime 5000 (settle 5000
                 (runAsyncSecond w ''powershell.exe'' pwshArgs (now s + PASTE_DELAY_win32_pwsh)))
           then settle 5000
                 (runAsync w ''powershell.exe'' pwshArgs (now s + PASTE_DELAY_win32_pwsh))
           else settle 5000
                 (runAsyncSecond w ''powershell.exe'' pwshArgs (now s + PASTE_DELAY_win32_pwsh))))"
  by (simp add: pasteWithPowerShellTwice_def Let_def split: settled.splits)

lemma pasteWithNircmd_exit_or_timeout:
  assumes "settle 2000 (runAsync w p nircmdArgs (now s + PASTE_DELAY_win32_nircmd)) = TimedOut
           \<or> (\<exists>d code err.
                 settle 2000 (runAsync w p nircmdArgs (now s + PASTE_DELAY_win32_nircmd))
                   = Closed d code err \<and> code \<noteq> Some 0)"
  shows "\<exists>sN. pasteWithNircmd w p orig s = pasteWithPowerShell w orig sN
            \<and> filter isSpawn (trace sN) = filter isSpawn (trace s) @ [Spawn p nircmdArgs]"
  using assms
proof
  assume "settle 2000 (runAsync w p nircmdArgs (now s + PASTE_DELAY_win32_nircmd)) = TimedOut"
  then show ?thesis
    by (intro exI [of _ "killProcess p (sleep 2000 (record_event (Spawn p nircmdArgs)
                           (sleep PASTE_DELAY_win32_nircmd s)))"])
       (simp add: pasteWithNircmd_def Let_def)
next
  assume "\<exists>d code err.
                 settle 2000 (runAsync w p nircmdArgs (now s + PASTE_DELAY_win32_nircmd))
                   = Closed d code err \<and> code \<noteq> Some 0"
  then obtain d code err where
    "settle 2000 (runAsync w p nircmdArgs (now s + PASTE_DELAY_win32_nircmd)) = Closed d code err"
    "code \<noteq> Some 0" by blast
  then show ?thesis
    by (intro exI [of _ "sleep d (record_event (Spawn p nircmdArgs)
                           (sleep PASTE_DELAY_win32_nircmd s))"])
       (simp add: pasteWithNircmd_def Let_def)
qed

lemma pasteWithNircmd_spawn_error:
  assumes "settle 2000 (runAsync w p nircmdArgs (now s + PASTE_DELAY_win32_nircmd)) = Errored d msg"
  shows "\<exists>sN. pasteWithNircmd w p orig s = pasteWithPowerShellTwice w orig sN
            \<and> filter isSpawn (trace sN) = filter isSpawn (trace s) @ [Spawn p nircmdArgs]"
  using assms
  by (intro exI [of _ "sleep d (record_event (Spawn p nircmdArgs)
                           (sleep PASTE_DELAY_win32_nircmd s))"])
     (simp add: pasteWithNircmd_def Let_def)

lemma pasteWithNircmd_first_spawn:
  "\<exists>rest. filter isSpawn (trace (snd (pasteWithNircmd w p orig s)))
            = filter isSpawn (trace s) @ Spawn p nircmdArgs # rest"
  by (simp add: pasteWithNircmd_def Let_def pasteWithPowerShell_spawns
        pasteWithPowerShellTwice_spawns split: settled.splits)

lemma win_sole_powershell:
  "(nircmdInv s \<and> fst (getNircmdPath w ''win32'' s) = None \<longrightarrow>
      (\<exists>s2. pasteText w e ''win32'' delivered s =
              Some ((fst (pasteWithPowerShell w (clipboard s) s2), ''powershell''),
                    snd (pasteWithPowerShell w (clipboard s) s2))
            \<and> now s2 = now s
            \<and> filter isSpawn (trace s2) = filter isSpawn (trace s)
            \<and> filter isSpawn (trace (snd (pasteWithPowerShell w (clipboard s) s2)))
                = filter isSpawn (trace s) @ [Spawn ''powershell.exe'' pwshArgs]))"
proof
  assume a: "nircmdInv s \<and> fst (getNircmdPath w ''win32'' s) = None"
  let ?s2 = "snd (getNircmdPath w ''win32'' (writeText delivered s))"
  have g: "getNircmdPath w ''win32'' (writeText delivered s) = (None, ?s2)"
    using a by (simp add: getNircmdPath_writeText prod_eq_iff)
  have f: "trace ?s2 = trace (writeText delivered s) \<and> now ?s2 = now s"
    using getNircmdPath_frame [OF g] by simp
  have inv: "nircmdInv s" using a by simp
  show "\<exists>s2. pasteText w e ''win32'' delivered s =
              Some ((fst (pasteWithPowerShell w (clipboard s) s2), ''powershell''),
                    snd (pasteWithPowerShell w (clipboard s) s2))
            \<and> now s2 = now s
            \<and> filter isSpawn (trace s2) = filter isSpawn (trace s)
            \<and> filter isSpawn (trace (snd (pasteWithPowerShell w (clipboard s) s2)))
                = filter isSpawn (trace s) @ [Spawn ''powershell.exe'' pwshArgs]"
    using pasteText_win32_powershell [OF inv g] f
    by (intro exI [of _ ?s2]) (simp add: pasteWithPowerShell_spawns)
qed

lemma win_nircmd_then_powershell:
  "(fst (getNircmdPath w ''win32'' s) = Some p
      \<and> (settle 2000 (runAsync w p nircmdArgs (now s + PASTE_DELAY_win32_nircmd)) = TimedOut
           \<or> (\<exists>d code err. settle 2000 (runAsync w p nircmdArgs (now s + PASTE_DELAY_win32_nircmd)) = Closed d code err \<and> code \<noteq> Some 0)) \<longrightarrow>
      (\<exists>sN. pasteText w e ''win32'' delivered s =
              Some ((fst (pasteWithPowerShell w (clipboard s) sN), ''nircmd''),
                    snd (pasteWithPowerShell w (clipboard s) sN))
            \<and> filter isSpawn (trace sN) = filter isSpawn (trace s) @ [Spawn p nircmdArgs]
            \<and> filter isSpawn (trace (snd (pasteWithPowerShell w (clipboard s) sN)))
                = filter isSpawn (trace s) @ [Spawn p nircmdArgs, Spawn ''powershell.exe'' pwshArgs]))"
proof
  assume a: "fst (getNircmdPath w ''win32'' s) = Some p
      \<and> (settle 2000 (runAsync w p nircmdArgs (now s + PASTE_DELAY_win32_nircmd)) = TimedOut
           \<or> (\<exists>d code err. settle 2000 (runAsync w p nircmdArgs (now s + PASTE_DELAY_win32_nircmd)) = Closed d code err \<and> code \<noteq> Some 0))"
  let ?s2 = "snd (getNircmdPath w ''win32'' (writeText delivered s))"
  have g: "getNircmdPath w ''win32'' (writeText delivered s) = (Some p, ?s2)"
    using a by (simp add: getNircmdPath_writeText prod_eq_iff)
  have f: "trace ?s2 = trace (writeText delivered s) \<and> now ?s2 = now s"
    using getNircmdPath_frame [OF g] by simp
  have fl: "settle 2000 (runAsync w p nircmdArgs (now ?s2 + PASTE_DELAY_win32_nircmd)) = TimedOut
           \<or> (\<exists>d code err.
                 settle 2000 (runAsync w p nircmdArgs (now ?s2 + PASTE_DELAY_win32_nircmd))
                   = Closed d code err \<and> code \<noteq> Some 0)"
    using a f by simp
  obtain sN where n: "pasteWithNircmd w p (clipboard s) ?s2 = pasteWithPowerShell w (clipboard s) sN"
    and t: "filter isSpawn (trace sN) = filter isSpawn (trace ?s2) @ [Spawn p nircmdArgs]"
    using pasteWithNircmd_exit_or_timeout [OF fl] by blast
  show "\<exists>sN. pasteText w e ''win32'' delivered s =
              Some ((fst (pasteWithPowerShell w (clipboard s) sN), ''nircmd''),
                    snd (pasteWithPowerShell w (clipboard s) sN))
            \<and> filter isSpawn (trace sN) = filter isSpawn (trace s) @ [Spawn p nircmdArgs]
            \<and> filter isSpawn (trace (snd (pasteWithPowerShell w (clipboard s) sN)))
                = filter isSpawn (trace s) @ [Spawn p nircmdArgs, Spawn ''powershell.exe'' pwshArgs]"
    using pasteText_win32_nircmd [OF g] n t f
    by (intro exI [of _ sN]) (simp add: pasteWithPowerShell_spawns)
qed

lemma win_nircmd_unstartable:
  "(fst (getNircmdPath w ''win32'' s) = Some p \<and> settle 2000 (runAsync w p nircmdArgs (now s + PASTE_DELAY_win32_nircmd)) = Errored d msg \<longrightarrow>
      (\<exists>sN. pasteText w e ''win32'' delivered s =
              Some ((fst (pasteWithPowerShellTwice w (clipboard s) sN), ''nircmd''),
                    snd (pasteWithPowerShellTwice w (clipboard s) sN))
            \<and> filter isSpawn (trace sN) = filter isSpawn (trace s) @ [Spawn p nircmdArgs]
            \<and> filter isSpawn (trace (snd (pasteWithPowerShellTwice w (clipboard s) sN)))
                = filter isSpawn (trace s)
                  @ [Spawn p nircmdArgs, Spawn ''powershell.exe'' pwshArgs,
                     Spawn ''powershell.exe'' pwshArgs]))"
proof
  assume a: "fst (getNircmdPath w ''win32'' s) = Some p \<and> settle 2000 (runAsync w p nircmdArgs (now s + PASTE_DELAY_win32_nircmd)) = Errored d msg"
  let ?s2 = "snd (getNircmdPath w ''win32'' (writeText delivered s))"
  have g: "getNircmdPath w ''win32'' (writeText delivered s) = (Some p, ?s2)"
    using a by (simp add: getNircmdPath_writeText prod_eq_iff)
  have f: "trace ?s2 = trace (writeText delivered s) \<and> now ?s2 = now s"
    using getNircmdPath_frame [OF g] by simp
  have fl: "settle 2000 (runAsync w p nircmdArgs (now ?s2 + PASTE_DELAY_win32_nircmd))
              = Errored d msg"
    using a f by simp
  obtain sN where n: "pasteWithNircmd w p (clipboard s) ?s2
                        = pasteWithPowerShellTwice w (clipboard s) sN"
    and t: "filter isSpawn (trace sN) = filter isSpawn (trace ?s2) @ [Spawn p nircmdArgs]"
    using pasteWithNircmd_spawn_error [OF fl] by blast
  show "\<exists>sN. pasteText w e ''win32'' delivered s =
              Some ((fst (pasteWithPowerShellTwice w (clipboard s) sN), ''nircmd''),
                    snd (pasteWithPowerShellTwice w (clipboard s) sN))
            \<and> filter isSpawn (trace sN) = filter isSpawn (trace s) @ [Spawn p nircmdArgs]
            \<and> filter isSpawn (trace (snd (pasteWithPowerShellTwice w (clipboard s) sN)))
                = filter isSpawn (trace s)
                  @ [Spawn p nircmdArgs, Spawn ''powershell.exe'' pwshArgs,
                     Spawn ''powershell.exe'' pwshArgs]"
    using pasteText_win32_nircmd [OF g] n t f
    by (intro exI [of _ sN]) (simp add: pasteWithPowerShellTwice_spawns)
qed

lemma win_absent_on_disk:
  "(\<not> nircmdChecked s \<and> find (existsSync w) (possiblePaths w) = None
      \<longrightarrow> fst (getNircmdPath w ''win32'' s) = None)"
  by (simp add: getNircmdPath_def Let_def)

lemma win_nircmd_selected:
  "(fst (getNircmdPath w ''win32'' s) = Some p \<longrightarrow>
      (\<exists>r s' rest. pasteText w e ''win32'' delivered s = Some ((r, ''nircmd''), s')
         \<and> filter isSpawn (trace s') = filter isSpawn (trace s) @ Spawn p nircmdArgs # rest))"
proof
  assume a: "fst (getNircmdPath w ''win32'' s) = Some p"
  let ?s2 = "snd (getNircmdPath w ''win32'' (writeText delivered s))"
  have g: "getNircmdPath w ''win32'' (writeText delivered s) = (Some p, ?s2)"
    using a by (simp add: getNircmdPath_writeText prod_eq_iff)
  have f: "filter isSpawn (trace ?s2) = filter isSpawn (trace s)"
    using getNircmdPath_frame [OF g] by simp
  obtain rest where r: "filter isSpawn (trace (snd (pasteWithNircmd w p (clipboard s) ?s2)))
            = filter isSpawn (trace ?s2) @ Spawn p nircmdArgs # rest"
    using pasteWithNircmd_first_spawn by blast
  show "\<exists>r s' rest. pasteText w e ''win32'' delivered s = Some ((r, ''nircmd''), s')
         \<and> filter isSpawn (trace s') = filter isSpawn (trace s) @ Spawn p nircmdArgs # rest"
    using pasteText_win32_nircmd [OF g] r f
    by (intro exI [of _ "fst (pasteWithNircmd w p (clipboard s) ?s2)"]
              exI [of _ "snd (pasteWithNircmd w p (clipboard s) ?s2)"] exI [of _ rest]) simp
qed


text \<open>
  C7. On Windows, when getNircmdPath finds no nircmd binary (none of the candidate paths
  exists when the manager first looks, or the manager has looked before and found none),
  pasteText reports powershell and the PowerShell child is the only child it starts. When
  nircmd resolves and its child closes with a code other than 0, or is still running when
  the 2000 ms timer fires, the PowerShell mechanism runs next in the same call, after the
  nircmd child and nothing else, and the outcome of the call is the outcome of that run.
  When nircmd resolves and its child fails to spawn, the PowerShell mechanism runs next
  in the same call as well, started twice (once by the \<open>error\<close> listener, once by the
  \<open>close\<close> listener that follows it): two PowerShell children follow the nircmd child, and
  the outcome of the call is the outcome of the run that settles first. A PowerShell run
  succeeds exactly when its child closes with code 0 within 5000 ms.
\<close>

theorem windows_powershell_fallback:
  "(nircmdInv s \<and> fst (getNircmdPath w ''win32'' s) = None \<longrightarrow>
      (\<exists>s2. pasteText w e ''win32'' delivered s =
              Some ((fst (pasteWithPowerShell w (clipboard s) s2), ''powershell''),
                    snd (pasteWithPowerShell w (clipboard s) s2))
            \<and> now s2 = now s
            \<and> filter isSpawn (trace s2) = filter isSpawn (trace s)
            \<and> filter isSpawn (trace (snd (pasteWithPowerShell w (clipboard s) s2)))
                = filter isSpawn (trace s) @ [Spawn ''powershell.exe'' pwshArgs]))
   \<and> (fst (getNircmdPath w ''win32'' s) = Some p
      \<and> (settle 2000 (runAsync w p nircmdArgs (now s + PASTE_DELAY_win32_nircmd)) = TimedOut
           \<or> (\<exists>d code err. settle 2000 (runAsync w p nircmdArgs (now s + PASTE_DELAY_win32_nircmd)) = Closed d code err \<and> code \<noteq> Some 0)) \<longrightarrow>
      (\<exists>sN. pasteText w e ''win32'' delivered s =
              Some ((fst (pasteWithPowerShell w (clipboard s) sN), ''nircmd''),
                    snd (pasteWithPowerShell w (clipboard s) sN))
            \<and> filter isSpawn (trace sN) = filter isSpawn (trace s) @ [Spawn p nircmdArgs]
            \<and> filter isSpawn (trace (snd (pasteWithPowerShell w (clipboard s) sN)))
                = filter isSpawn (trace s) @ [Spawn p nircmdArgs, Spawn ''powershell.exe'' pwshArgs]))
   \<and> (fst (getNircmdPath w ''win32'' s) = Some p \<and> settle 2000 (runAsync w p nircmdArgs (now s + PASTE_DELAY_win32_nircmd)) = Errored d msg \<longrightarrow>
      (\<exists>sN. pasteText w e ''win32'' delivered s =
              Some ((fst (pasteWithPowerShellTwice w (clipboard s) sN), ''nircmd''),
                    snd (pasteWithPowerShellTwice w (clipboard s) sN))
            \<and> filter isSpawn (trace sN) = filter isSpawn (trace s) @ [Spawn p nircmdArgs]
            \<and> filter isSpawn (trace (snd (pasteWithPowerShellTwice w (clipboard s) sN)))
                = filter isSpawn (trace s)
                  @ [Spawn p nircmdArgs, Spawn ''powershell.exe'' pwshArgs,
                     Spawn ''powershell.exe'' pwshArgs]))
   \<and> (fst (pasteWithPowerShell w orig s) = Inr ())
     = (\<not> failed (settle 5000
           (runAsync w ''powershell.exe'' pwshArgs (now s + PASTE_DELAY_win32_pwsh))))
   \<and> (fst (pasteWithPowerShellTwice w orig s) = Inr ())
     = (\<not> failed
          (if settleTime 5000 (settle 5000
                 (runAsync w ''powershell.exe'' pwshArgs (now s + PASTE_DELAY_win32_pwsh)))
              \<le> settleTime 5000 (settle 5000
                 (runAsyncSecond w ''powershell.exe'' pwshArgs (now s + PASTE_DELAY_win32_pwsh)))
           then settle 5000
                 (runAsync w ''powershell.exe'' pwshArgs (now s + PASTE_DELAY_win32_pwsh))
           else settle 5000
                 (runAsyncSecond w ''powershell.exe'' pwshArgs (now s + PASTE_DELAY_win32_pwsh))))
   \<and> (\<not> nircmdChecked s \<and> find (existsSync w) (possiblePaths w) = None
      \<longrightarrow> fst (getNircmdPath w ''win32'' s) = None)
   \<and> (\<forall>d code err. failed (Closed d code err) = (code \<noteq> Some 0))
   \<and> (\<forall>d msg. failed (Errored d msg))
   \<and> failed TimedOut"
  by (intro conjI win_sole_powershell win_nircmd_then_powershell win_nircmd_unstartable
        pasteWithPowerShell_decided pasteWithPowerShellTwice_decided win_absent_on_disk)
     simp_all

theorem windows_powershell_fallback_witness:
  "nircmdInv (newManager 0 ''old'')
   \<and> fst (getNircmdPath (exampleWorld [] [] [] allSucceed) ''win32'' (newManager 0 ''old'')) = None
   \<and> (\<exists>r s'. pasteText (exampleWorld [] [] [] allSucceed) x11Env ''win32'' ''hello''
                 (newManager 0 ''old'') = Some ((r, ''powershell''), s')
          \<and> filter isSpawn (trace s') = [Spawn ''powershell.exe'' pwshArgs])
   \<and> fst (getNircmdPath (exampleWorld [] [] [''C:/src/resources/bin/nircmd.exe''] allHang)
             ''win32'' (newManager 0 ''old'')) = Some ''C:/src/resources/bin/nircmd.exe''
   \<and> settle 2000 (runAsync (exampleWorld [] [] [''C:/src/resources/bin/nircmd.exe''] allHang)
                ''C:/src/resources/bin/nircmd.exe'' nircmdArgs
                (now (newManager 0 ''old'') + PASTE_DELAY_win32_nircmd)) = TimedOut
   \<and> (\<exists>r s'. pasteText (exampleWorld [] [] [''C:/src/resources/bin/nircmd.exe''] allHang)
                 x11Env ''win32'' ''hello'' (newManager 0 ''old'') = Some ((r, ''nircmd''), s')
          \<and> filter isSpawn (trace s')
              = [Spawn ''C:/src/resources/bin/nircmd.exe'' nircmdArgs,
                 Spawn ''powershell.exe'' pwshArgs])
   \<and> settle 2000 (runAsync nircmdUnstartableWorld
                ''C:/src/resources/bin/nircmd.exe'' nircmdArgs
                (now (newManager 0 ''old'') + PASTE_DELAY_win32_nircmd))
       = Errored 1 ''spawn EACCES''
   \<and> (\<exists>r s'. pasteText nircmdUnstartableWorld x11Env ''win32'' ''hello''
                 (newManager 0 ''old'') = Some ((r, ''nircmd''), s')
          \<and> filter isSpawn (trace s')
              = [Spawn ''C:/src/resources/bin/nircmd.exe'' nircmdArgs,
                 Spawn ''powershell.exe'' pwshArgs, Spawn ''powershell.exe'' pwshArgs])"
proof -
  let ?S = "newManager 0 ''old''"
  let ?A = "exampleWorld [] [] [] allSucceed"
  let ?B = "exampleWorld [] [] [''C:/src/resources/bin/nircmd.exe''] allHang"
  let ?U = "nircmdUnstartableWorld"
  let ?p = "''C:/src/resources/bin/nircmd.exe''"
  have inv: "nircmdInv ?S" by (simp add: nircmdInv_def newManager_def)
  have none: "fst (getNircmdPath ?A ''win32'' ?S) = None"
    by (simp add: getNircmdPath_def exampleWorld_def newManager_def Let_def)
  have some: "fst (getNircmdPath ?B ''win32'' ?S) = Some ?p"
    by (simp add: getNircmdPath_def exampleWorld_def newManager_def Let_def)
  have someU: "fst (getNircmdPath ?U ''win32'' ?S) = Some ?p"
    by (simp add: getNircmdPath_def nircmdUnstartableWorld_def newManager_def Let_def)
  have fl: "settle 2000 (runAsync ?B ?p nircmdArgs (now ?S + PASTE_DELAY_win32_nircmd)) = TimedOut"
    by (simp add: exampleWorld_def allHang_def)
  have er: "settle 2000 (runAsync ?U ?p nircmdArgs (now ?S + PASTE_DELAY_win32_nircmd))
              = Errored 1 ''spawn EACCES''"
    by (simp add: nircmdUnstartableWorld_def)
  have tr: "filter isSpawn (trace ?S) = []" by (simp add: newManager_def)
  note th = windows_powershell_fallback
  have a: "\<exists>r s'. pasteText ?A x11Env ''win32'' ''hello'' ?S = Some ((r, ''powershell''), s')
          \<and> filter isSpawn (trace s') = [Spawn ''powershell.exe'' pwshArgs]"
    using th [where s = ?S and w = ?A and e = x11Env and delivered = "''hello''", THEN conjunct1]
      inv none tr
    by auto
  have b: "\<exists>r s'. pasteText ?B x11Env ''win32'' ''hello'' ?S = Some ((r, ''nircmd''), s')
          \<and> filter isSpawn (trace s') = [Spawn ?p nircmdArgs, Spawn ''powershell.exe'' pwshArgs]"
    using th [where s = ?S and w = ?B and e = x11Env and delivered = "''hello''" and p = ?p,
              THEN conjunct2, THEN conjunct1] some fl tr
    by auto
  have c: "\<exists>r s'. pasteText ?U x11Env ''win32'' ''hello'' ?S = Some ((r, ''nircmd''), s')
          \<and> filter isSpawn (trace s')
              = [Spawn ?p nircmdArgs, Spawn ''powershell.exe'' pwshArgs,
                 Spawn ''powershell.exe'' pwshArgs]"
    using th [where s = ?S and w = ?U and e = x11Env and delivered = "''hello''" and p = ?p
                and d = 1 and msg = "''spawn EACCES''",
              THEN conjunct2, THEN conjunct2, THEN conjunct1] someU er tr
    by auto
  show ?thesis using inv none a some fl b er c by (intro conjI)
qed

text \<open>
  C9. On Windows checkPasteTools answers with method powershell and an empty tools list
  whatever the manager and the disk hold, and starts no child; this also when nircmd
  resolves, where pasteText in the same state reports nircmd and starts the nircmd
  binary first.
\<close>

theorem windows_diagnostics_ignore_nircmd:
  "checkPasteTools w e ''win32'' s =
     (\<lparr>pt_platform = ''win32'', pt_available = True, pt_method = Some ''powershell'',
       pt_requiresPermission = False, pt_isWayland = None, pt_xwaylandAvailable = None,
       pt_tools = [], pt_recommendedInstall = None\<rparr>, s)
   \<and> (fst (getNircmdPath w ''win32'' s) = Some p \<longrightarrow>
      (\<exists>r s' rest. pasteText w e ''win32'' delivered s = Some ((r, ''nircmd''), s')
         \<and> filter isSpawn (trace s') = filter isSpawn (trace s) @ Spawn p nircmdArgs # rest))"
  by (intro conjI win_nircmd_selected) (simp add: checkPasteTools_def)

theorem windows_diagnostics_ignore_nircmd_witness:
  "fst (getNircmdPath (exampleWorld [] [] [''C:/src/resources/bin/nircmd.exe''] allSucceed)
             ''win32'' (newManager 0 ''old'')) = Some ''C:/src/resources/bin/nircmd.exe''
   \<and> pt_method (fst (checkPasteTools
          (exampleWorld [] [] [''C:/src/resources/bin/nircmd.exe''] allSucceed) x11Env ''win32''
          (newManager 0 ''old''))) = Some ''powershell''
   \<and> (\<exists>r s' rest. pasteText (exampleWorld [] [] [''C:/src/resources/bin/nircmd.exe''] allSucceed)
                 x11Env ''win32'' ''hello'' (newManager 0 ''old'') = Some ((r, ''nircmd''), s')
          \<and> filter isSpawn (trace s')
              = Spawn ''C:/src/resources/bin/nircmd.exe'' nircmdArgs # rest)"
proof -
  let ?S = "newManager 0 ''old''"
  let ?B = "exampleWorld [] [] [''C:/src/resources/bin/nircmd.exe''] allSucceed"
  let ?p = "''C:/src/resources/bin/nircmd.exe''"
  have some: "fst (getNircmdPath ?B ''win32'' ?S) = Some ?p"
    by (simp add: getNircmdPath_def exampleWorld_def newManager_def Let_def)
  have tr: "filter isSpawn (trace ?S) = []" by (simp add: newManager_def)
  note th = windows_diagnostics_ignore_nircmd [where s = ?S and w = ?B and e = x11Env and delivered = "''hello''" and p = ?p]
  have m: "pt_method (fst (checkPasteTools ?B x11Env ''win32'' ?S)) = Some ''powershell''"
    using th [THEN conjunct1] by simp
  have b: "\<exists>r s' rest. pasteText ?B x11Env ''win32'' ''hello'' ?S = Some ((r, ''nircmd''), s')
          \<and> filter isSpawn (trace s') = Spawn ?p nircmdArgs # rest"
    using th [THEN conjunct2] some tr by auto
  show ?thesis using some m b by (intro conjI)
qed

section \<open>The permission probe and its dialog\<close>

lemma permission_cache_hit:
  "(now s < snd (accessibilityCache s) \<and> fst (accessibilityCache s) = Some v
      \<longrightarrow> checkAccessibilityPermissions w ''darwin'' s = Some (v, s))"
  by (simp add: checkAccessibilityPermissions_def)

lemma permission_probe_denied:
  "(\<not> (now s < snd (accessibilityCache s) \<and> fst (accessibilityCache s) \<noteq> None)
    \<and> checkAccessibilityPermissions w ''darwin'' s = Some (False, s')
      \<longrightarrow> (\<exists>stuck. trace s' = trace s @ [Spawn ''osascript'' probeArgs, ShowDialog stuck])
          \<and> accessibilityCache s' = (Some False, now s' + CACHE_TTL_MS))"
  by (auto simp: checkAccessibilityPermissions_def Let_def showAccessibilityDialog_def
           split: proc_behaviour.splits if_splits)

lemma permission_probe_granted:
  "(\<not> (now s < snd (accessibilityCache s) \<and> fst (accessibilityCache s) \<noteq> None)
    \<and> checkAccessibilityPermissions w ''darwin'' s = Some (True, s')
      \<longrightarrow> trace s' = trace s @ [Spawn ''osascript'' probeArgs]
          \<and> accessibilityCache s' = (Some True, now s' + CACHE_TTL_MS))"
  by (auto simp: checkAccessibilityPermissions_def Let_def showAccessibilityDialog_def
           split: proc_behaviour.splits if_splits)

lemma permission_probe_which:
  "(\<not> (now s < snd (accessibilityCache s) \<and> fst (accessibilityCache s) \<noteq> None)
      \<longrightarrow> (\<exists>s'. checkAccessibilityPermissions w ''darwin'' s = Some (False, s'))
            = (case runAsync w ''osascript'' probeArgs (now s) of
                 Closes d code testError \<Rightarrow> code \<noteq> Some 0
               | Errors d msg \<Rightarrow> True
               | Hangs \<Rightarrow> False))"
  by (auto simp: checkAccessibilityPermissions_def Let_def split: proc_behaviour.splits)

text \<open>
  C8. On macOS every checkAccessibilityPermissions probe that ends in a denial (the probe
  child closes with a code other than 0, or fails to spawn, in which case the \<open>close\<close>
  listener runs after the \<open>error\<close> listener) shows the remediation dialog exactly once:
  the probe child and one dialog are all that the probe adds to the trace, and the
  denial is cached for 30000 ms. A probe that ends in a grant shows no dialog. An answer
  returned from the cache within its 30000 ms leaves the state, trace included, as it
  is: no child, no dialog.
\<close>

theorem permission_denial_shows_dialog_once:
  "(\<not> (now s < snd (accessibilityCache s) \<and> fst (accessibilityCache s) \<noteq> None)
    \<and> checkAccessibilityPermissions w ''darwin'' s = Some (False, s')
      \<longrightarrow> (\<exists>stuck. trace s' = trace s @ [Spawn ''osascript'' probeArgs, ShowDialog stuck])
          \<and> accessibilityCache s' = (Some False, now s' + CACHE_TTL_MS))
   \<and> (\<not> (now s < snd (accessibilityCache s) \<and> fst (accessibilityCache s) \<noteq> None)
    \<and> checkAccessibilityPermissions w ''darwin'' s = Some (True, s')
      \<longrightarrow> trace s' = trace s @ [Spawn ''osascript'' probeArgs]
          \<and> accessibilityCache s' = (Some True, now s' + CACHE_TTL_MS))
   \<and> (now s < snd (accessibilityCache s) \<and> fst (accessibilityCache s) = Some v
      \<longrightarrow> checkAccessibilityPermissions w ''darwin'' s = Some (v, s))
   \<and> (\<not> (now s < snd (accessibilityCache s) \<and> fst (accessibilityCache s) \<noteq> None)
      \<longrightarrow> (\<exists>s'. checkAccessibilityPermissions w ''darwin'' s = Some (False, s'))
            = (case runAsync w ''osascript'' probeArgs (now s) of
                 Closes d code testError \<Rightarrow> code \<noteq> Some 0
               | Errors d msg \<Rightarrow> True
               | Hangs \<Rightarrow> False))"
  by (intro conjI permission_probe_denied permission_probe_granted permission_cache_hit
        permission_probe_which)

theorem permission_denial_shows_dialog_once_witness:
  "runAsync (exampleWorld [] [] [] allExitOne) ''osascript'' probeArgs (now (newManager 0 ''old''))
     = Closes 5 (Some 1) ''execution error: not allowed assistive access (-1719)''
   \<and> runAsync (exampleWorld [] [] [] allFailToSpawn) ''osascript'' probeArgs
         (now (newManager 0 ''old'')) = Errors 1 ''spawn ENOENT''
   \<and> (\<exists>s'. checkAccessibilityPermissions (exampleWorld [] [] [] allExitOne) ''darwin''
              (newManager 0 ''old'') = Some (False, s')
          \<and> filter isDialog (trace s') = [ShowDialog True]
          \<and> checkAccessibilityPermissions (exampleWorld [] [] [] allExitOne) ''darwin'' s'
              = Some (False, s'))
   \<and> (\<exists>s'. checkAccessibilityPermissions (exampleWorld [] [] [] allFailToSpawn) ''darwin''
              (newManager 0 ''old'') = Some (False, s')
          \<and> filter isDialog (trace s') = [ShowDialog False]
          \<and> checkAccessibilityPermissions (exampleWorld [] [] [] allFailToSpawn) ''darwin'' s'
              = Some (False, s'))"
proof -
  let ?X = "exampleWorld [] [] [] allExitOne"
  let ?F = "exampleWorld [] [] [] allFailToSpawn"
  let ?S = "newManager 0 ''old''"
  let ?sx = "?S\<lparr>now := 5, accessibilityCache := (Some False, 30005),
               trace := [Spawn ''osascript'' probeArgs, ShowDialog True]\<rparr>"
  let ?sf = "?S\<lparr>now := 1, accessibilityCache := (Some False, 30001),
               trace := [Spawn ''osascript'' probeArgs, ShowDialog False]\<rparr>"
  have rx: "runAsync ?X ''osascript'' probeArgs (now ?S)
     = Closes 5 (Some 1) ''execution error: not allowed assistive access (-1719)''"
    by (simp add: exampleWorld_def allExitOne_def)
  have rf: "runAsync ?F ''osascript'' probeArgs (now ?S) = Errors 1 ''spawn ENOENT''"
    by (simp add: exampleWorld_def allFailToSpawn_def)
  have miss: "\<not> (now ?S < snd (accessibilityCache ?S) \<and> fst (accessibilityCache ?S) \<noteq> None)"
    by (simp add: newManager_def)
  have cx: "checkAccessibilityPermissions ?X ''darwin'' ?S = Some (False, ?sx)"
    by (simp add: checkAccessibilityPermissions_def showAccessibilityDialog_def
          exampleWorld_def allExitOne_def newManager_def record_event_def sleep_def advance_to_def
          CACHE_TTL_MS_def Let_def)
  have cf: "checkAccessibilityPermissions ?F ''darwin'' ?S = Some (False, ?sf)"
    by (simp add: checkAccessibilityPermissions_def showAccessibilityDialog_def
          exampleWorld_def allFailToSpawn_def newManager_def record_event_def sleep_def
          advance_to_def CACHE_TTL_MS_def Let_def)
  note th = permission_denial_shows_dialog_once
  have dx: "filter isDialog (trace ?sx) = [ShowDialog True]"
    using th [where s = ?S and w = ?X and s' = ?sx, THEN conjunct1] miss cx
    by (auto simp: newManager_def)
  have df: "filter isDialog (trace ?sf) = [ShowDialog False]"
    using th [where s = ?S and w = ?F and s' = ?sf, THEN conjunct1] miss cf
    by (auto simp: newManager_def)
  have hx: "checkAccessibilityPermissions ?X ''darwin'' ?sx = Some (False, ?sx)"
    using th [where s = ?sx and w = ?X and v = False, THEN conjunct2, THEN conjunct2,
              THEN conjunct1]
    by (simp add: newManager_def)
  have hf: "checkAccessibilityPermissions ?F ''darwin'' ?sf = Some (False, ?sf)"
    using th [where s = ?sf and w = ?F and v = False, THEN conjunct2, THEN conjunct2,
              THEN conjunct1]
    by (simp add: newManager_def)
  show ?thesis
    apply (intro conjI)
       apply (rule rx)
      apply (rule rf)
     apply (rule exI [of _ ?sx])
     apply (intro conjI cx dx hx)
    apply (rule exI [of _ ?sf])
    apply (intro conjI cf df hf)
    done
qed

section \<open>The clipboard round trip\<close>

lemma sleep_idle:
  assumes "timers s = []"
  shows "timers (sleep d s) = []" and "clipboard (sleep d s) = clipboard s"
  using assms by (simp_all add: sleep_no_timers)

lemma advance_to_early:
  assumes "list_all (\<lambda>tm. t < fst tm) (timers s)"
  shows "timers (advance_to t s) = timers s" and "clipboard (advance_to t s) = clipboard s"
proof -
  have "filter (\<lambda>tm. fst tm \<le> t) (timers s) = []"
    using assms by (auto simp: filter_empty_conv list_all_iff)
  moreover have "filter (\<lambda>tm. \<not> fst tm \<le> t) (timers s) = timers s"
    using assms by (auto simp: filter_id_conv list_all_iff)
  ultimately show "timers (advance_to t s) = timers s"
    and "clipboard (advance_to t s) = clipboard s"
    by (simp_all add: advance_to_def Let_def)
qed

lemma restorePending_single:
  "timers s = [(now s + D, orig)] \<Longrightarrow> restorePending D orig s"
  by (simp add: restorePending_def)


text \<open>What a mechanism leaves behind when no callback was pending before it.\<close>

lemma pasteMacOS_outcome:
  assumes "timers s = []" and "pasteMacOS w orig s = (r, s')"
  shows "clipboard s' = clipboard s
         \<and> (case r of Inr u \<Rightarrow> timers s' = [(now s' + 100, orig)] | Inl err \<Rightarrow> timers s' = [])"
  using assms
  by (auto simp: pasteMacOS_def Let_def sleep_idle split: settled.splits if_splits)

lemma pasteWithPowerShell_outcome:
  assumes "timers s = []" and "pasteWithPowerShell w orig s = (r, s')"
  shows "clipboard s' = clipboard s
         \<and> (case r of Inr u \<Rightarrow> timers s' = [(now s' + 80, orig)] | Inl err \<Rightarrow> timers s' = [])"
  using assms
  by (auto simp: pasteWithPowerShell_def Let_def sleep_idle RESTORE_DELAY_win32_pwsh_def
           split: settled.splits if_splits)

lemma pasteWithPowerShellTwice_outcome:
  assumes idle: "timers s = []" and tw: "pasteWithPowerShellTwice w orig s = (r, s')"
  shows "clipboard s' = clipboard s
         \<and> (case r of Inr u \<Rightarrow> restorePending 80 orig s' | Inl err \<Rightarrow> True)"
proof -
  let ?s1 = "sleep PASTE_DELAY_win32_pwsh s"
  let ?first = "settle 5000 (runAsync w ''powershell.exe'' pwshArgs (now ?s1))"
  let ?second = "settle 5000 (runAsyncSecond w ''powershell.exe'' pwshArgs (now ?s1))"
  show ?thesis
  proof (cases ?first)
    case f: (Closed d1 c1 e1)
    show ?thesis
    proof (cases ?second)
      case (Closed d2 c2 e2)
      then show ?thesis using f idle tw
        by (auto simp: pasteWithPowerShellTwice_def Let_def sleep_idle restorePending_def
              RESTORE_DELAY_win32_pwsh_def advance_to_early sleep_def
              split: if_splits)
    next
      case (Errored d2 m2)
      then show ?thesis using f idle tw
        by (auto simp: pasteWithPowerShellTwice_def Let_def sleep_idle restorePending_def
              RESTORE_DELAY_win32_pwsh_def advance_to_early sleep_def
              split: if_splits)
    next
      case TimedOut
      then show ?thesis using f idle tw
        by (auto simp: pasteWithPowerShellTwice_def Let_def sleep_idle restorePending_def
              RESTORE_DELAY_win32_pwsh_def advance_to_early sleep_def
              split: if_splits)
    qed
  next
    case f: (Errored d1 m1)
    show ?thesis
    proof (cases ?second)
      case (Closed d2 c2 e2)
      then show ?thesis using f idle tw
        by (auto simp: pasteWithPowerShellTwice_def Let_def sleep_idle restorePending_def
              RESTORE_DELAY_win32_pwsh_def advance_to_early sleep_def
              split: if_splits)
    next
      case (Errored d2 m2)
      then show ?thesis using f idle tw
        by (auto simp: pasteWithPowerShellTwice_def Let_def sleep_idle restorePending_def
              RESTORE_DELAY_win32_pwsh_def advance_to_early sleep_def
              split: if_splits)
    next
      case TimedOut
      then show ?thesis using f idle tw
        by (auto simp: pasteWithPowerShellTwice_def Let_def sleep_idle restorePending_def
              RESTORE_DELAY_win32_pwsh_def advance_to_early sleep_def
              split: if_splits)
    qed
  next
    case f: TimedOut
    show ?thesis
    proof (cases ?second)
      case (Closed d2 c2 e2)
      then show ?thesis using f idle tw
        by (auto simp: pasteWithPowerShellTwice_def Let_def sleep_idle restorePending_def
              RESTORE_DELAY_win32_pwsh_def advance_to_early sleep_def
              split: if_splits)
    next
      case (Errored d2 m2)
      then show ?thesis using f idle tw
        by (auto simp: pasteWithPowerShellTwice_def Let_def sleep_idle restorePending_def
              RESTORE_DELAY_win32_pwsh_def advance_to_early sleep_def
              split: if_splits)
    next
      case TimedOut
      then show ?thesis using f idle tw
        by (auto simp: pasteWithPowerShellTwice_def Let_def sleep_idle restorePending_def
              RESTORE_DELAY_win32_pwsh_def advance_to_early sleep_def
              split: if_splits)
    qed
  qed
qed

lemma pasteWithNircmd_outcome:
  assumes "timers s = []" and "pasteWithNircmd w p orig s = (r, s')"
  shows "clipboard s' = clipboard s
         \<and> (case r of
               Inr u \<Rightarrow>
                 restorePending 80 orig s'
                 \<and> ((\<forall>d msg. settle 2000 (runAsync w p nircmdArgs
                        (now s + PASTE_DELAY_win32_nircmd)) \<noteq> Errored d msg)
                      \<longrightarrow> timers s' = [(now s' + 80, orig)])
             | Inl err \<Rightarrow>
                 (\<forall>d msg. settle 2000 (runAsync w p nircmdArgs
                      (now s + PASTE_DELAY_win32_nircmd)) \<noteq> Errored d msg)
                   \<longrightarrow> timers s' = [])"
proof -
  let ?s2 = "record_event (Spawn p nircmdArgs) (sleep PASTE_DELAY_win32_nircmd s)"
  have i2: "timers ?s2 = []" "clipboard ?s2 = clipboard s"
    using assms(1) by (simp_all add: sleep_idle)
  show ?thesis
  proof (cases "settle 2000 (runAsync w p nircmdArgs (now s + PASTE_DELAY_win32_nircmd))")
    case (Closed d code err)
    show ?thesis
    proof (cases "code = Some 0")
      case True
      then show ?thesis using assms Closed i2
        by (auto simp: pasteWithNircmd_def Let_def sleep_idle RESTORE_DELAY_win32_nircmd_def
              restorePending_def)
    next
      case False
      then have "pasteWithPowerShell w orig (sleep d ?s2) = (r, s')"
        using assms Closed by (simp add: pasteWithNircmd_def Let_def)
      then show ?thesis
        using pasteWithPowerShell_outcome [of "sleep d ?s2" w orig r s'] i2 Closed
        by (auto simp: sleep_idle restorePending_def split: sum.splits)
    qed
  next
    case (Errored d msg)
    then have "pasteWithPowerShellTwice w orig (sleep d ?s2) = (r, s')"
      using assms by (simp add: pasteWithNircmd_def Let_def)
    then show ?thesis
      using pasteWithPowerShellTwice_outcome [of "sleep d ?s2" w orig r s'] i2 Errored
      by (auto simp: sleep_idle split: sum.splits)
  next
    case TimedOut
    then have "pasteWithPowerShell w orig (killProcess p (sleep 2000 ?s2)) = (r, s')"
      using assms by (simp add: pasteWithNircmd_def Let_def)
    then show ?thesis
      using pasteWithPowerShell_outcome [of "killProcess p (sleep 2000 ?s2)" w orig r s'] i2
        TimedOut
      by (auto simp: sleep_idle restorePending_def split: sum.splits)
  qed
qed

lemma pasteWith_outcome:
  assumes "timers s = []" and "pasteWith w orig t s = (r, s')"
  shows "clipboard s' = clipboard s
         \<and> (case r of Inr u \<Rightarrow> timers s' = [(now s' + 200, orig)] | Inl err \<Rightarrow> timers s' = [])"
  using assms
  by (auto simp: pasteWith_def Let_def sleep_idle split: settled.splits if_splits)

lemma tryTools_outcome:
  assumes "timers s = []" and "tryTools w orig ts s = (ok, s')"
  shows "clipboard s' = clipboard s
         \<and> (if ok then timers s' = [(now s' + 200, orig)] else timers s' = [])"
  using assms
proof (induction ts arbitrary: s)
  case Nil
  then show ?case by auto
next
  case (Cons t ts)
  obtain r s1 where pw: "pasteWith w orig t s = (r, s1)" by (cases "pasteWith w orig t s")
  note o = pasteWith_outcome [OF Cons.prems(1) pw]
  show ?case
  proof (cases r)
    case (Inl err)
    then have "tryTools w orig ts s1 = (ok, s')" using Cons.prems(2) pw by simp
    moreover have "timers s1 = []" using o Inl by simp
    ultimately show ?thesis using Cons.IH [of s1] o by simp
  next
    case (Inr u)
    then have "ok" "s' = s1" using Cons.prems(2) pw by auto
    then show ?thesis using o Inr by simp
  qed
qed

lemma filterAvailable_probesOnly:
  "filterAvailable w cs s = (av, s') \<Longrightarrow> probesOnly s s'"
proof (induction cs arbitrary: s av s')
  case Nil
  then show ?case by (simp add: probesOnly_refl)
next
  case (Cons c cs)
  obtain ex s1 where ce: "commandExists w (cmd c) s = (ex, s1)"
    by (cases "commandExists w (cmd c) s")
  obtain rest s2 where fa: "filterAvailable w cs s1 = (rest, s2)"
    by (cases "filterAvailable w cs s1")
  have "s' = s2" using Cons.prems ce fa by simp
  then show ?case
    using commandExists_probesOnly [OF ce] Cons.IH [OF fa] probesOnly_trans by blast
qed

text \<open>The states of pasteLinux before and after its loop over the tools.\<close>

lemma pasteLinux_split:
  assumes pl: "pasteLinux w e orig s = (r, s')"
  shows "\<exists>av s5 ok. probesOnly s s5 \<and> tryTools w orig av s5 = (ok, s') \<and> ok = (r = Inr ())"
proof -
  let ?info = "getLinuxSessionInfo e"
  obtain xe s1 where c1: "commandExists w ''xdotool'' s = (xe, s1)"
    by (cases "commandExists w ''xdotool'' s")
  obtain we s2 where c2: "commandExists w ''wtype'' s1 = (we, s2)"
    by (cases "commandExists w ''wtype'' s1")
  obtain cls s3 where gx: "getXdotoolWindowClass w xe ?info s2 = (cls, s3)"
    by (cases "getXdotoolWindowClass w xe ?info s2")
  obtain b s4 where it: "isTerminal w cls s3 = (b, s4)"
    by (cases "isTerminal w cls s3")
  obtain av s5 where fa: "filterAvailable w
           (candidates (isWayland ?info \<and> \<not> isGnome ?info)
              (if isWayland ?info then cls \<noteq> None else xe) b) s4 = (av, s5)"
    by (cases "filterAvailable w
           (candidates (isWayland ?info \<and> \<not> isGnome ?info)
              (if isWayland ?info then cls \<noteq> None else xe) b) s4")
  obtain ok s6 where tt: "tryTools w orig av s5 = (ok, s6)"
    by (cases "tryTools w orig av s5")
  have "probesOnly s s2"
    using commandExists_probesOnly [OF c1] commandExists_probesOnly [OF c2] probesOnly_trans
    by blast
  moreover have "probesOnly s2 s3" using getXdotoolWindowClass_frame [OF gx] by simp
  moreover have "probesOnly s3 s4" using isTerminal_frame [OF it] by simp
  moreover have "probesOnly s4 s5" using filterAvailable_probesOnly [OF fa] .
  ultimately have p: "probesOnly s s5" using probesOnly_trans by blast
  have "pasteLinux w e orig s =
          (if ok then Inr ()
           else Inl (PasteSimulationFailed (linuxErrorMsg ?info xe we cls)), s6)"
    using pasteLinux_steps [OF c1 c2 gx it fa tt] .
  with pl have "s' = s6" and "r = (if ok then Inr ()
           else Inl (PasteSimulationFailed (linuxErrorMsg ?info xe we cls)))"
    by simp_all
  then have "tryTools w orig av s5 = (ok, s')" and "ok = (r = Inr ())"
    using tt by (simp_all split: if_splits)
  with p show ?thesis by (intro exI conjI)
qed

lemma pasteLinux_outcome:
  assumes idle: "timers s = []" and pl: "pasteLinux w e orig s = (r, s')"
  shows "clipboard s' = clipboard s
         \<and> (case r of Inr u \<Rightarrow> timers s' = [(now s' + 200, orig)] | Inl err \<Rightarrow> timers s' = [])"
proof -
  from pasteLinux_split [OF pl] obtain av s5 ok where
    p: "probesOnly s s5" and tt: "tryTools w orig av s5 = (ok, s')" and ok: "ok = (r = Inr ())"
    by auto
  have i5: "timers s5 = []" and c5: "clipboard s5 = clipboard s"
    using p idle by (simp_all add: probesOnly_def)
  note o = tryTools_outcome [OF i5 tt]
  show ?thesis using o c5 ok by (cases r) auto
qed

lemma checkAccessibilityPermissions_idle:
  assumes "timers s = []" and "checkAccessibilityPermissions w platform s = Some (b, s')"
  shows "timers s' = [] \<and> clipboard s' = clipboard s"
  using assms
  by (auto simp: checkAccessibilityPermissions_def Let_def sleep_idle showAccessibilityDialog_def
           split: if_splits proc_behaviour.splits)

lemma getNircmdPath_twice_writeText:
  "fst (getNircmdPath w p (snd (getNircmdPath w p (writeText t s))))
   = fst (getNircmdPath w p (snd (getNircmdPath w p s)))"
  by (simp add: getNircmdPath_def writeText_def record_event_def Let_def split: option.splits)

lemma pasteText_outcome:
  assumes idle: "timers s = []"
    and pt: "pasteText w e platform delivered s = Some ((r, m), s')"
  shows "clipboard s' = delivered
         \<and> (case r of
               Inr u \<Rightarrow>
                 restorePending (if platform = ''darwin'' then 100
                                 else if platform = ''win32'' then 80 else 200) (clipboard s) s'
                 \<and> (\<not> (platform = ''win32'' \<and> nircmdFailsToSpawn w s)
                      \<longrightarrow> timers s' =
                            [(now s' + (if platform = ''darwin'' then 100
                                        else if platform = ''win32'' then 80 else 200),
                              clipboard s)])
             | Inl err \<Rightarrow>
                 \<not> (platform = ''win32'' \<and> nircmdFailsToSpawn w s) \<longrightarrow> timers s' = [])"
proof -
  let ?s1 = "writeText delivered s"
  have i1: "timers ?s1 = []" and c1: "clipboard ?s1 = delivered" using idle by simp_all
  consider (mac) "platform = ''darwin''" | (win) "platform = ''win32''"
    | (linux) "platform \<noteq> ''darwin''" "platform \<noteq> ''win32''" by blast
  then show ?thesis
  proof cases
    case mac
    from pt mac obtain has s2 where
      ch: "checkAccessibilityPermissions w platform ?s1 = Some (has, s2)"
      by (auto simp: pasteText_def Let_def split: option.splits)
    note f = checkAccessibilityPermissions_idle [OF i1 ch]
    show ?thesis
    proof (cases has)
      case False
      then show ?thesis using pt mac ch f by (auto simp: pasteText_def Let_def)
    next
      case True
      then have "pasteMacOS w (clipboard s) s2 = (r, s')"
        using pt mac ch by (auto simp: pasteText_def Let_def split: prod.splits)
      then show ?thesis
        using pasteMacOS_outcome [of s2 w "clipboard s" r s'] f mac
        by (auto simp: restorePending_def split: sum.splits)
    qed
  next
    case win
    obtain p s2 where g: "getNircmdPath w ''win32'' ?s1 = (p, s2)"
      by (cases "getNircmdPath w ''win32'' ?s1")
    obtain p' s3 where g': "getNircmdPath w ''win32'' s2 = (p', s3)"
      by (cases "getNircmdPath w ''win32'' s2")
    have f: "timers s3 = []" "clipboard s3 = delivered" "now s3 = now s"
      using getNircmdPath_frame [OF g] getNircmdPath_frame [OF g'] idle by simp_all
    have p': "fst (getNircmdPath w ''win32'' (snd (getNircmdPath w ''win32'' s))) = p'"
      using getNircmdPath_twice_writeText [of w "''win32''" delivered s] g g' by simp
    have run: "(case p' of Some path \<Rightarrow> pasteWithNircmd w path (clipboard s) s3
            | None \<Rightarrow> pasteWithPowerShell w (clipboard s) s3) = (r, s')"
      using pt win g g'
      by (auto simp: pasteText_def pasteWindows_def Let_def split: prod.splits option.splits)
    show ?thesis
    proof (cases p')
      case None
      then show ?thesis
        using run pasteWithPowerShell_outcome [of s3 w "clipboard s" r s'] f win
        by (auto simp: restorePending_def split: sum.splits)
    next
      case (Some path)
      have nf: "nircmdFailsToSpawn w s
            = (\<exists>d msg. settle 2000 (runAsync w path nircmdArgs
                    (now s3 + PASTE_DELAY_win32_nircmd)) = Errored d msg)"
        using p' Some f(3) by (auto simp: nircmdFailsToSpawn_def split: settled.splits)
      show ?thesis
        using run Some pasteWithNircmd_outcome [of s3 w path "clipboard s" r s'] f win nf
        by (auto split: sum.splits)
    qed
  next
    case linux
    then have "pasteLinux w e (clipboard s) ?s1 = (r, s')"
      using pt by (auto simp: pasteText_def Let_def split: prod.splits)
    then show ?thesis
      using pasteLinux_outcome [of ?s1 w e "clipboard s" r s'] i1 c1 linux
      by (auto simp: restorePending_def split: sum.splits)
  qed
qed

text \<open>Every function only adds to the trace.\<close>

lemma traceGrows_iff: "traceGrows s s' = (\<exists>evs. trace s' = trace s @ evs)"
proof
  assume "traceGrows s s'"
  then have "trace s' = trace s @ drop (length (trace s)) (trace s')"
    unfolding traceGrows_def by (metis append_take_drop_id)
  then show "\<exists>evs. trace s' = trace s @ evs" ..
next
  assume "\<exists>evs. trace s' = trace s @ evs"
  then show "traceGrows s s'" by (auto simp: traceGrows_def)
qed

lemma traceGrows_refl: "traceGrows s s"
  by (simp add: traceGrows_def)

lemma traceGrows_trans: "traceGrows s s1 \<Longrightarrow> traceGrows s1 s2 \<Longrightarrow> traceGrows s s2"
  by (auto simp: traceGrows_iff)

lemma traceGrows_same: "trace s' = trace s \<Longrightarrow> traceGrows s s'"
  by (simp add: traceGrows_def)

lemma probesOnly_traceGrows: "probesOnly s s' \<Longrightarrow> traceGrows s s'"
  by (auto simp: probesOnly_def traceGrows_iff)

lemma checkAccessibilityPermissions_traceGrows:
  "checkAccessibilityPermissions w platform s = Some (b, s') \<Longrightarrow> traceGrows s s'"
  by (auto simp: checkAccessibilityPermissions_def Let_def showAccessibilityDialog_def
        traceGrows_iff split: if_splits proc_behaviour.splits)

lemma pasteMacOS_traceGrows: "pasteMacOS w orig s = (r, s') \<Longrightarrow> traceGrows s s'"
  by (auto simp: pasteMacOS_def Let_def traceGrows_iff split: settled.splits if_splits)

lemma pasteWithPowerShell_traceGrows:
  "pasteWithPowerShell w orig s = (r, s') \<Longrightarrow> traceGrows s s'"
  by (auto simp: pasteWithPowerShell_def Let_def traceGrows_iff split: settled.splits if_splits)

lemma pasteWithPowerShellTwice_trace:
  "\<exists>evs. trace (snd (pasteWithPowerShellTwice w orig s)) = trace s @ evs"
  by (simp add: pasteWithPowerShellTwice_def Let_def split: settled.splits)

lemma pasteWithPowerShellTwice_traceGrows:
  "pasteWithPowerShellTwice w orig s = (r, s') \<Longrightarrow> traceGrows s s'"
  using pasteWithPowerShellTwice_trace [of w orig s]
  by (auto simp: traceGrows_iff)

lemma pasteWithNircmd_traceGrows:
  assumes "pasteWithNircmd w p orig s = (r, s')"
  shows "traceGrows s s'"
proof -
  let ?s2 = "record_event (Spawn p nircmdArgs) (sleep PASTE_DELAY_win32_nircmd s)"
  have g2: "traceGrows s ?s2" by (simp add: traceGrows_iff)
  show ?thesis
  proof (cases "settle 2000 (runAsync w p nircmdArgs (now s + PASTE_DELAY_win32_nircmd))")
    case (Closed d code err)
    show ?thesis
    proof (cases "code = Some 0")
      case True
      then show ?thesis using assms Closed
        by (auto simp: pasteWithNircmd_def Let_def traceGrows_iff)
    next
      case False
      then have "pasteWithPowerShell w orig (sleep d ?s2) = (r, s')"
        using assms Closed by (simp add: pasteWithNircmd_def Let_def)
      then have "traceGrows (sleep d ?s2) s'" by (rule pasteWithPowerShell_traceGrows)
      then show ?thesis by (auto simp: traceGrows_iff)
    qed
  next
    case (Errored d msg)
    then have "pasteWithPowerShellTwice w orig (sleep d ?s2) = (r, s')"
      using assms by (simp add: pasteWithNircmd_def Let_def)
    then have "traceGrows (sleep d ?s2) s'" by (rule pasteWithPowerShellTwice_traceGrows)
    then show ?thesis by (auto simp: traceGrows_iff)
  next
    case TimedOut
    then have "pasteWithPowerShell w orig (killProcess p (sleep 2000 ?s2)) = (r, s')"
      using assms by (simp add: pasteWithNircmd_def Let_def)
    then have "traceGrows (killProcess p (sleep 2000 ?s2)) s'"
      by (rule pasteWithPowerShell_traceGrows)
    then show ?thesis by (auto simp: traceGrows_iff)
  qed
qed

lemma pasteWith_traceGrows: "pasteWith w orig t s = (r, s') \<Longrightarrow> traceGrows s s'"
  by (auto simp: pasteWith_def Let_def traceGrows_iff split: settled.splits if_splits)

lemma tryTools_traceGrows: "tryTools w orig ts s = (ok, s') \<Longrightarrow> traceGrows s s'"
proof (induction ts arbitrary: s)
  case Nil
  then show ?case by (simp add: traceGrows_refl)
next
  case (Cons t ts)
  obtain r s1 where pw: "pasteWith w orig t s = (r, s1)" by (cases "pasteWith w orig t s")
  note g = pasteWith_traceGrows [OF pw]
  show ?case
  proof (cases r)
    case (Inl err)
    then have "tryTools w orig ts s1 = (ok, s')" using Cons.prems pw by simp
    then show ?thesis using Cons.IH [of s1] g traceGrows_trans by blast
  next
    case (Inr u)
    then have "s' = s1" using Cons.prems pw by auto
    then show ?thesis using g by simp
  qed
qed

lemma pasteLinux_traceGrows:
  assumes "pasteLinux w e orig s = (r, s')"
  shows "traceGrows s s'"
proof -
  from pasteLinux_split [OF assms] obtain av s5 ok where
    p: "probesOnly s s5" and tt: "tryTools w orig av s5 = (ok, s')"
    by auto
  show ?thesis
    using probesOnly_traceGrows [OF p] tryTools_traceGrows [OF tt] by (rule traceGrows_trans)
qed

lemma pasteText_writes_first:
  assumes pt: "pasteText w e platform delivered s = Some ((r, m), s')"
  shows "\<exists>rest. trace s' = trace s @ ClipboardWrite delivered # rest"
proof -
  let ?s1 = "writeText delivered s"
  have "traceGrows ?s1 s'"
  proof -
    consider (mac) "platform = ''darwin''" | (win) "platform = ''win32''"
      | (linux) "platform \<noteq> ''darwin''" "platform \<noteq> ''win32''" by blast
    then show ?thesis
    proof cases
      case mac
      from pt mac obtain has s2 where
        ch: "checkAccessibilityPermissions w platform ?s1 = Some (has, s2)"
        by (auto simp: pasteText_def Let_def split: option.splits)
      note g = checkAccessibilityPermissions_traceGrows [OF ch]
      show ?thesis
      proof (cases has)
        case False
        then show ?thesis using pt mac ch g by (auto simp: pasteText_def Let_def)
      next
        case True
        then have "pasteMacOS w (clipboard s) s2 = (r, s')"
          using pt mac ch by (auto simp: pasteText_def Let_def split: prod.splits)
        then show ?thesis using pasteMacOS_traceGrows g traceGrows_trans by blast
      qed
    next
      case win
      obtain p s2 where g: "getNircmdPath w ''win32'' ?s1 = (p, s2)"
        by (cases "getNircmdPath w ''win32'' ?s1")
      obtain p' s3 where g': "getNircmdPath w ''win32'' s2 = (p', s3)"
        by (cases "getNircmdPath w ''win32'' s2")
      have f: "traceGrows ?s1 s3"
        using getNircmdPath_frame [OF g] getNircmdPath_frame [OF g']
        by (simp add: traceGrows_def)
      have run: "(case p' of Some path \<Rightarrow> pasteWithNircmd w path (clipboard s) s3
              | None \<Rightarrow> pasteWithPowerShell w (clipboard s) s3) = (r, s')"
        using pt win g g'
        by (auto simp: pasteText_def pasteWindows_def Let_def split: prod.splits option.splits)
      have "traceGrows s3 s'"
        using run pasteWithNircmd_traceGrows pasteWithPowerShell_traceGrows
        by (cases p') auto
      with f show ?thesis by (rule traceGrows_trans)
    next
      case linux
      then have "pasteLinux w e (clipboard s) ?s1 = (r, s')"
        using pt by (auto simp: pasteText_def Let_def split: prod.splits)
      then show ?thesis by (rule pasteLinux_traceGrows)
    qed
  qed
  then show ?thesis by (auto simp: traceGrows_iff)
qed




lemma mac_first_call_hangsLater:
  "pasteText hangsLaterWorld x11Env ''darwin'' ''first'' (newManager 0 ''old'')
   = Some ((Inr (), ''applescript''),
        (newManager 0 ''old'')
          \<lparr>now := 90, clipboard := ''first'', timers := [(190, ''old'')],
           accessibilityCache := (Some True, 30020),
           trace := [ClipboardWrite ''first'', Spawn ''osascript'' probeArgs,
                     Spawn ''osascript'' macArgs]\<rparr>)"
  by (simp add: pasteText_def checkAccessibilityPermissions_def pasteMacOS_def writeText_def
        newManager_def record_event_def sleep_def advance_to_def schedule_restore_def
        killProcess_def CACHE_TTL_MS_def PASTE_DELAY_MS_def PASTE_DELAY_darwin_def Let_def
        hangsLaterWorld_def)

lemma mac_second_call_hangsLater:
  "pasteText hangsLaterWorld x11Env ''darwin'' ''second''
     (advance_to 100
        ((newManager 0 ''old'')
          \<lparr>now := 90, clipboard := ''first'', timers := [(190, ''old'')],
           accessibilityCache := (Some True, 30020),
           trace := [ClipboardWrite ''first'', Spawn ''osascript'' probeArgs,
                     Spawn ''osascript'' macArgs]\<rparr>))
   = Some ((Inl (Error ''Paste operation timed out. Text is copied to clipboard - please paste manually with Cmd+V.''), ''applescript''),
        (newManager 0 ''old'')
          \<lparr>now := 3150, clipboard := ''old'',
           accessibilityCache := (Some True, 30020),
           trace := [ClipboardWrite ''first'', Spawn ''osascript'' probeArgs,
                     Spawn ''osascript'' macArgs, ClipboardWrite ''second'',
                     Spawn ''osascript'' macArgs, Kill ''osascript'']\<rparr>)"
  by (simp add: pasteText_def checkAccessibilityPermissions_def pasteMacOS_def writeText_def
        newManager_def record_event_def sleep_def advance_to_def schedule_restore_def
        killProcess_def CACHE_TTL_MS_def PASTE_DELAY_MS_def PASTE_DELAY_darwin_def Let_def
        hangsLaterWorld_def)
     (rule exI [of _ True], rule TrueI)

lemma mac_denied_example:
  "pasteText (exampleWorld [] [] [] allExitOne) x11Env ''darwin'' ''hello'' (newManager 0 ''old'')
   = Some ((Inl (Error ''Accessibility permissions required for automatic pasting. Text has been copied to clipboard - please paste manually with Cmd+V.''),
            ''applescript''),
        (newManager 0 ''old'')
          \<lparr>now := 5, clipboard := ''hello'',
           accessibilityCache := (Some False, 30005),
           trace := [ClipboardWrite ''hello'', Spawn ''osascript'' probeArgs,
                     ShowDialog True]\<rparr>)"
  by (simp add: pasteText_def checkAccessibilityPermissions_def pasteMacOS_def writeText_def
        newManager_def record_event_def sleep_def advance_to_def schedule_restore_def
        killProcess_def CACHE_TTL_MS_def PASTE_DELAY_MS_def PASTE_DELAY_darwin_def Let_def
        showAccessibilityDialog_def exampleWorld_def allExitOne_def)

text \<open>
  When the nircmd child fails to spawn, the PowerShell run of the \<open>close\<close> listener can
  succeed after the run of the \<open>error\<close> listener has failed the call: the call returns a
  failure, and the original content is written back 80 ms after the second child closed.
\<close>

lemma spawn_error_restores_after_failure:
  "nircmdFailsToSpawn nircmdUnstartableWorld (newManager 0 ''old'')
   \<and> pasteText nircmdUnstartableWorld x11Env ''win32'' ''hello'' (newManager 0 ''old'')
     = Some ((Inl (Error (''Windows paste failed with code '' @ showCode (Some 1) @ ''. Text is copied to clipboard - please paste manually with Ctrl+V.'')), ''nircmd''),
        (newManager 0 ''old'')
          \<lparr>now := 121, clipboard := ''hello'', timers := [(251, ''old'')],
           nircmdPath := Some ''C:/src/resources/bin/nircmd.exe'', nircmdChecked := True,
           trace := [ClipboardWrite ''hello'',
                     Spawn ''C:/src/resources/bin/nircmd.exe'' nircmdArgs,
                     Spawn ''powershell.exe'' pwshArgs, Spawn ''powershell.exe'' pwshArgs]\<rparr>)
   \<and> clipboard (advance_to 251
        ((newManager 0 ''old'')
          \<lparr>now := 121, clipboard := ''hello'', timers := [(251, ''old'')],
           nircmdPath := Some ''C:/src/resources/bin/nircmd.exe'', nircmdChecked := True,
           trace := [ClipboardWrite ''hello'',
                     Spawn ''C:/src/resources/bin/nircmd.exe'' nircmdArgs,
                     Spawn ''powershell.exe'' pwshArgs, Spawn ''powershell.exe'' pwshArgs]\<rparr>)) = ''old''"
  by (simp add: pasteText_def pasteWindows_def pasteWithNircmd_def pasteWithPowerShellTwice_def
        getNircmdPath_def nircmdFailsToSpawn_def nircmdUnstartableWorld_def writeText_def
        newManager_def record_event_def sleep_def advance_to_def
        PASTE_DELAY_win32_nircmd_def PASTE_DELAY_win32_pwsh_def RESTORE_DELAY_win32_pwsh_def
        Let_def)




text \<open>
  C2 as stated fails: a call that starts while the restore of an earlier call
  is pending and then fails returns its failure with the earlier call's original on the
  clipboard. The first call succeeds at 90 and its restore of \<open>old\<close> is due at 190; the
  second call starts at 100, writes \<open>second\<close>, its child never ends and is killed at 3150:
  the failure is returned with \<open>old\<close> on the clipboard.
\<close>

theorem failure_after_pending_restore_loses_text:
  "pasteText hangsLaterWorld x11Env ''darwin'' ''first'' (newManager 0 ''old'')
   = Some ((Inr (), ''applescript''),
        (newManager 0 ''old'')
          \<lparr>now := 90, clipboard := ''first'', timers := [(190, ''old'')],
           accessibilityCache := (Some True, 30020),
           trace := [ClipboardWrite ''first'', Spawn ''osascript'' probeArgs,
                     Spawn ''osascript'' macArgs]\<rparr>)
   \<and> pasteText hangsLaterWorld x11Env ''darwin'' ''second''
     (advance_to 100
        ((newManager 0 ''old'')
          \<lparr>now := 90, clipboard := ''first'', timers := [(190, ''old'')],
           accessibilityCache := (Some True, 30020),
           trace := [ClipboardWrite ''first'', Spawn ''osascript'' probeArgs,
                     Spawn ''osascript'' macArgs]\<rparr>))
   = Some ((Inl (Error ''Paste operation timed out. Text is copied to clipboard - please paste manually with Cmd+V.''), ''applescript''),
        (newManager 0 ''old'')
          \<lparr>now := 3150, clipboard := ''old'',
           accessibilityCache := (Some True, 30020),
           trace := [ClipboardWrite ''first'', Spawn ''osascript'' probeArgs,
                     Spawn ''osascript'' macArgs, ClipboardWrite ''second'',
                     Spawn ''osascript'' macArgs, Kill ''osascript'']\<rparr>)
   \<and> clipboard
        ((newManager 0 ''old'')
          \<lparr>now := 3150, clipboard := ''old'',
           accessibilityCache := (Some True, 30020),
           trace := [ClipboardWrite ''first'', Spawn ''osascript'' probeArgs,
                     Spawn ''osascript'' macArgs, ClipboardWrite ''second'',
                     Spawn ''osascript'' macArgs, Kill ''osascript'']\<rparr>) = ''old''"
  apply (intro conjI)
    apply (rule mac_first_call_hangsLater)
   apply (rule mac_second_call_hangsLater)
  apply (simp add: newManager_def)
  done

text \<open>
  C2. pasteText writes the text to the clipboard before anything else it does: whatever
  the outcome, the write is the first event that the call adds to the trace, ahead of
  every child. When no restore of an earlier call is pending at the start, no nircmd
  child fails to spawn and pasteText fails, whatever the failure (permission denied on
  macOS, the terminal failure of a mechanism, every Linux candidate exhausted), the
  delivered text is on the clipboard when the failure is returned and no callback is
  pending: the original content is not written back, at that moment or later.
\<close>

theorem idle_failure_keeps_delivered_text:
  "(pasteText w e platform delivered s = Some ((r, m), s')
      \<longrightarrow> (\<exists>rest. trace s' = trace s @ ClipboardWrite delivered # rest))
   \<and> (timers s = [] \<and> \<not> (platform = ''win32'' \<and> nircmdFailsToSpawn w s)
      \<and> pasteText w e platform delivered s = Some ((Inl err, m), s')
      \<longrightarrow> clipboard s' = delivered \<and> timers s' = []
          \<and> (\<forall>t. clipboard (advance_to t s') = delivered))"
proof (intro conjI impI)
  assume "pasteText w e platform delivered s = Some ((r, m), s')"
  then show "\<exists>rest. trace s' = trace s @ ClipboardWrite delivered # rest"
    by (rule pasteText_writes_first)
next
  assume a: "timers s = [] \<and> \<not> (platform = ''win32'' \<and> nircmdFailsToSpawn w s)
      \<and> pasteText w e platform delivered s = Some ((Inl err, m), s')"
  then have idle: "timers s = []"
    and failure: "pasteText w e platform delivered s = Some ((Inl err, m), s')"
    by simp_all
  have c: "clipboard s' = delivered" and t: "timers s' = []"
    using pasteText_outcome [OF idle failure] a by simp_all
  then show "clipboard s' = delivered" by simp
  show "timers s' = []" by (rule t)
  show "\<forall>t. clipboard (advance_to t s') = delivered"
    using c t by (simp add: advance_to_def Let_def)
qed

theorem idle_failure_keeps_delivered_text_witness:
  "timers (newManager 0 ''old'') = []
   \<and> \<not> (''darwin'' = ''win32''
         \<and> nircmdFailsToSpawn (exampleWorld [] [] [] allExitOne) (newManager 0 ''old''))
   \<and> (\<exists>err s'. pasteText (exampleWorld [] [] [] allExitOne) x11Env ''darwin'' ''hello''
               (newManager 0 ''old'') = Some ((Inl err, ''applescript''), s')
          \<and> trace s' = [ClipboardWrite ''hello'', Spawn ''osascript'' probeArgs, ShowDialog True]
          \<and> clipboard s' = ''hello'' \<and> timers s' = []
          \<and> clipboard (advance_to (now s' + 1000) s') = ''hello'')"
proof -
  let ?S = "newManager 0 ''old''"
  let ?W = "exampleWorld [] [] [] allExitOne"
  let ?s' = "(newManager 0 ''old'')
          \<lparr>now := 5, clipboard := ''hello'',
           accessibilityCache := (Some False, 30005),
           trace := [ClipboardWrite ''hello'', Spawn ''osascript'' probeArgs,
                     ShowDialog True]\<rparr>"
  let ?err = "Error ''Accessibility permissions required for automatic pasting. Text has been copied to clipboard - please paste manually with Cmd+V.''"
  have idle: "timers ?S = []" by (simp add: newManager_def)
  have nw: "\<not> (''darwin'' = ''win32'' \<and> nircmdFailsToSpawn ?W ?S)" by simp
  note th = idle_failure_keeps_delivered_text
              [where s = ?S and w = ?W and e = x11Env and platform = "''darwin''"
                 and delivered = "''hello''" and s' = ?s' and err = ?err
                 and r = "Inl ?err" and m = "''applescript''"]
  have "\<exists>rest. trace ?s' = trace ?S @ ClipboardWrite ''hello'' # rest"
    using th [THEN conjunct1] mac_denied_example by simp
  then have tr: "trace ?s' = [ClipboardWrite ''hello'', Spawn ''osascript'' probeArgs,
                              ShowDialog True]"
    by (simp add: newManager_def)
  have rest: "clipboard ?s' = ''hello'' \<and> timers ?s' = []
          \<and> (\<forall>t. clipboard (advance_to t ?s') = ''hello'')"
    using th [THEN conjunct2] idle nw mac_denied_example by simp
  have a: "clipboard ?s' = ''hello''" using rest by (rule conjunct1)
  have b: "timers ?s' = []" using rest [THEN conjunct2, THEN conjunct1] .
  have c: "clipboard (advance_to (now ?s' + 1000) ?s') = ''hello''"
    using rest [THEN conjunct2, THEN conjunct2, rule_format, of "now ?s' + 1000"] .
  show ?thesis
    apply (rule conjI) apply (rule idle)
    apply (rule conjI) apply (rule nw)
    apply (rule exI [of _ ?err])
    apply (rule exI [of _ ?s'])
    apply (intro conjI mac_denied_example tr a b c)
    done
qed

section \<open>Timeouts\<close>






















end
